theory Spec2Isabelle
  imports Complex_Main "HOL-Library.Char_ord" "HOL-Library.List_Lexorder"
begin

section \<open>Data model (shared/schema.ts)\<close>

text \<open>
  TypeScript types are erased at run time, and neither the store nor the routes inspect
  the text fields or the price of a record: they only copy them. The records are
  therefore parametric in the type \<open>'s\<close> of the text fields (\<open>string\<close> for a well-typed
  caller, an arbitrary JSON value for what a request body may carry) and in the type
  \<open>'n\<close> of JavaScript numbers. Identifiers and timestamps are always strings produced by
  \<open>randomUUID()\<close> and \<open>new Date().toISOString()\<close>.
\<close>

record ('s, 'n) ShootFormData =
  modelName :: 's
  salonName :: 's
  date :: 's
  price :: 'n

record ('s, 'n) Shoot =
  id :: string
  modelName :: 's
  salonName :: 's
  date :: 's
  price :: 'n
  createdAt :: string
  updatedAt :: string

record ('s, 'n) EditedShoot =
  id :: string
  originalShootId :: string
  modelName :: 's
  salonName :: 's
  date :: 's
  price :: 'n
  createdAt :: string
  editedAt :: string

record 'n MonthlyStats =
  month :: "string option"
  year :: "int option"
  monthNumber :: "nat option"
  shootCount :: nat
  totalEarnings :: 'n


section \<open>The record store (server/storage.ts)\<close>

record ('s, 'n) DataStore =
  shoots :: "('s, 'n) Shoot list"
  editedShoots :: "('s, 'n) EditedShoot list"

text \<open>
  The persisted document \<open>data.json\<close>: it may not exist, it may exist and fail to be read
  or parsed, or it holds a document. Writing with \<open>JSON.stringify\<close> and reading back with
  \<open>JSON.parse\<close> is taken as the identity on documents. This is what the code does when
  every price of the document is a finite number; \<open>JSON.stringify\<close> writes the prices NaN,
  \<open>Infinity\<close> and \<open>-Infinity\<close> as \<open>null\<close>, so on a document with such a price the model
  keeps a number where the file holds \<open>null\<close>. The calls into \<open>fs\<close> and \<open>console\<close> are
  recorded in a trace, so that what an operation did to the file is part of its result.
\<close>

datatype ('s, 'n) data_file = Missing | Unreadable | Doc "('s, 'n) DataStore"

datatype ('s, 'n) io =
    ExistsSync
  | ReadFileSync
  | ConsoleError
  | WriteFileSync "('s, 'n) DataStore"

record ('s, 'n) world =
  DATA_FILE :: "('s, 'n) data_file"
  trace :: "('s, 'n) io list"

definition emptyStore :: "('s, 'n) DataStore" where
  "emptyStore = \<lparr>shoots = [], editedShoots = []\<rparr>"

definition readData :: "('s, 'n) world \<Rightarrow> ('s, 'n) DataStore \<times> ('s, 'n) world" where
  "readData w =
     (case DATA_FILE w of
        Missing \<Rightarrow> (emptyStore, w\<lparr>trace := trace w @ [ExistsSync]\<rparr>)
      | Unreadable \<Rightarrow>
          (emptyStore, w\<lparr>trace := trace w @ [ExistsSync, ReadFileSync, ConsoleError]\<rparr>)
      | Doc d \<Rightarrow> (d, w\<lparr>trace := trace w @ [ExistsSync, ReadFileSync]\<rparr>))"

definition writeData :: "('s, 'n) DataStore \<Rightarrow> ('s, 'n) world \<Rightarrow> ('s, 'n) world" where
  "writeData data w = w\<lparr>DATA_FILE := Doc data, trace := trace w @ [WriteFileSync data]\<rparr>"

text \<open>\<open>Array.prototype.findIndex\<close>; \<open>None\<close> stands for \<open>-1\<close>.\<close>

fun findIndex :: "('a \<Rightarrow> bool) \<Rightarrow> 'a list \<Rightarrow> nat option" where
  "findIndex P [] = None"
| "findIndex P (x # xs) = (if P x then Some 0 else map_option Suc (findIndex P xs))"

text \<open>\<open>xs.splice(idx, 1)\<close>: the list without the element at \<open>idx\<close>.\<close>

definition splice1 :: "nat \<Rightarrow> 'a list \<Rightarrow> 'a list" where
  "splice1 idx xs = take idx xs @ drop (Suc idx) xs"

definition getShoots :: "('s, 'n) world \<Rightarrow> ('s, 'n) Shoot list \<times> ('s, 'n) world" where
  "getShoots w = (let (data, w1) = readData w in (shoots data, w1))"

definition getShootById ::
  "string \<Rightarrow> ('s, 'n) world \<Rightarrow> ('s, 'n) Shoot option \<times> ('s, 'n) world" where
  "getShootById i w =
     (let (data, w1) = readData w in (find (\<lambda>s. Shoot.id s = i) (shoots data), w1))"

definition createShoot ::
  "('s, 'n) ShootFormData \<Rightarrow> string \<Rightarrow> string \<Rightarrow> ('s, 'n) world
     \<Rightarrow> ('s, 'n) Shoot \<times> ('s, 'n) world" where
  "createShoot form uuid now w =
     (let (data, w1) = readData w;
          shoot = \<lparr>Shoot.id = uuid,
                   modelName = ShootFormData.modelName form,
                   salonName = ShootFormData.salonName form,
                   date = ShootFormData.date form,
                   price = ShootFormData.price form,
                   createdAt = now,
                   updatedAt = now\<rparr>;
          data1 = data\<lparr>shoots := shoots data @ [shoot]\<rparr>
      in (shoot, writeData data1 w1))"

definition updateShoot ::
  "string \<Rightarrow> ('s, 'n) ShootFormData \<Rightarrow> string \<Rightarrow> ('s, 'n) world
     \<Rightarrow> ('s, 'n) Shoot option \<times> ('s, 'n) world" where
  "updateShoot i form now w =
     (let (data, w1) = readData w in
      case findIndex (\<lambda>s. Shoot.id s = i) (shoots data) of
        None \<Rightarrow> (None, w1)
      | Some idx \<Rightarrow>
          (let shoot = (shoots data ! idx)
                 \<lparr>Shoot.modelName := ShootFormData.modelName form,
                  Shoot.salonName := ShootFormData.salonName form,
                  Shoot.date := ShootFormData.date form,
                  Shoot.price := ShootFormData.price form,
                  Shoot.updatedAt := now\<rparr>;
               data1 = data\<lparr>shoots := (shoots data)[idx := shoot]\<rparr>
           in (Some shoot, writeData data1 w1)))"

definition deleteShoot :: "string \<Rightarrow> ('s, 'n) world \<Rightarrow> bool \<times> ('s, 'n) world" where
  "deleteShoot i w =
     (let (data, w1) = readData w in
      case findIndex (\<lambda>s. Shoot.id s = i) (shoots data) of
        None \<Rightarrow> (False, w1)
      | Some idx \<Rightarrow>
          (let data1 = data\<lparr>shoots := splice1 idx (shoots data)\<rparr>
           in (True, writeData data1 w1)))"

definition moveShootToEdited ::
  "string \<Rightarrow> string \<Rightarrow> string \<Rightarrow> ('s, 'n) world
     \<Rightarrow> ('s, 'n) EditedShoot option \<times> ('s, 'n) world" where
  "moveShootToEdited i uuid now w =
     (let (data, w1) = readData w in
      case findIndex (\<lambda>s. Shoot.id s = i) (shoots data) of
        None \<Rightarrow> (None, w1)
      | Some idx \<Rightarrow>
          (let shoot = shoots data ! idx;
               data1 = data\<lparr>shoots := splice1 idx (shoots data)\<rparr>;
               editedShoot = \<lparr>EditedShoot.id = uuid,
                              originalShootId = Shoot.id shoot,
                              modelName = Shoot.modelName shoot,
                              salonName = Shoot.salonName shoot,
                              date = Shoot.date shoot,
                              price = Shoot.price shoot,
                              createdAt = Shoot.createdAt shoot,
                              editedAt = now\<rparr>;
               data2 = data1\<lparr>editedShoots := editedShoots data1 @ [editedShoot]\<rparr>
           in (Some editedShoot, writeData data2 w1)))"

definition getEditedShoots ::
  "('s, 'n) world \<Rightarrow> ('s, 'n) EditedShoot list \<times> ('s, 'n) world" where
  "getEditedShoots w = (let (data, w1) = readData w in (editedShoots data, w1))"

definition getEditedShootById ::
  "string \<Rightarrow> ('s, 'n) world \<Rightarrow> ('s, 'n) EditedShoot option \<times> ('s, 'n) world" where
  "getEditedShootById i w =
     (let (data, w1) = readData w
      in (find (\<lambda>s. EditedShoot.id s = i) (editedShoots data), w1))"

definition updateEditedShoot ::
  "string \<Rightarrow> ('s, 'n) ShootFormData \<Rightarrow> string \<Rightarrow> ('s, 'n) world
     \<Rightarrow> ('s, 'n) EditedShoot option \<times> ('s, 'n) world" where
  "updateEditedShoot i form now w =
     (let (data, w1) = readData w in
      case findIndex (\<lambda>s. EditedShoot.id s = i) (editedShoots data) of
        None \<Rightarrow> (None, w1)
      | Some idx \<Rightarrow>
          (let edited = (editedShoots data ! idx)
                 \<lparr>EditedShoot.modelName := ShootFormData.modelName form,
                  EditedShoot.salonName := ShootFormData.salonName form,
                  EditedShoot.date := ShootFormData.date form,
                  EditedShoot.price := ShootFormData.price form,
                  EditedShoot.editedAt := now\<rparr>;
               data1 = data\<lparr>editedShoots := (editedShoots data)[idx := edited]\<rparr>
           in (Some edited, writeData data1 w1)))"

definition moveEditedShootBack ::
  "string \<Rightarrow> string \<Rightarrow> string \<Rightarrow> ('s, 'n) world
     \<Rightarrow> ('s, 'n) Shoot option \<times> ('s, 'n) world" where
  "moveEditedShootBack i uuid now w =
     (let (data, w1) = readData w in
      case findIndex (\<lambda>s. EditedShoot.id s = i) (editedShoots data) of
        None \<Rightarrow> (None, w1)
      | Some idx \<Rightarrow>
          (let edited = editedShoots data ! idx;
               data1 = data\<lparr>editedShoots := splice1 idx (editedShoots data)\<rparr>;
               shoot = \<lparr>Shoot.id = uuid,
                        modelName = EditedShoot.modelName edited,
                        salonName = EditedShoot.salonName edited,
                        date = EditedShoot.date edited,
                        price = EditedShoot.price edited,
                        createdAt = EditedShoot.createdAt edited,
                        updatedAt = now\<rparr>;
               data2 = data1\<lparr>shoots := shoots data1 @ [shoot]\<rparr>
           in (Some shoot, writeData data2 w1)))"

definition deleteEditedShoot :: "string \<Rightarrow> ('s, 'n) world \<Rightarrow> bool \<times> ('s, 'n) world" where
  "deleteEditedShoot i w =
     (let (data, w1) = readData w in
      case findIndex (\<lambda>s. EditedShoot.id s = i) (editedShoots data) of
        None \<Rightarrow> (False, w1)
      | Some idx \<Rightarrow>
          (let data1 = data\<lparr>editedShoots := splice1 idx (editedShoots data)\<rparr>
           in (True, writeData data1 w1)))"

text \<open>
  What the store holds, as the next \<open>readData\<close> sees it: the Pending bucket and the Edited
  bucket of the persisted document.
\<close>

definition pending :: "('s, 'n) world \<Rightarrow> ('s, 'n) Shoot list" where
  "pending w = shoots (fst (readData w))"

definition edited :: "('s, 'n) world \<Rightarrow> ('s, 'n) EditedShoot list" where
  "edited w = editedShoots (fst (readData w))"

text \<open>The documents written by \<open>writeData\<close> in a trace, in order.\<close>

fun written :: "('s, 'n) io list \<Rightarrow> ('s, 'n) DataStore list" where
  "written [] = []"
| "written (WriteFileSync d # es) = d # written es"
| "written (e # es) = written es"

text \<open>
  \<open>no_write w w'\<close>: between \<open>w\<close> and \<open>w'\<close> the file was not written and is unchanged.
  \<open>one_write w w'\<close>: exactly one document was written, and it is the file's content.
\<close>

definition no_write :: "('s, 'n) world \<Rightarrow> ('s, 'n) world \<Rightarrow> bool" where
  "no_write w w' \<longleftrightarrow> DATA_FILE w' = DATA_FILE w \<and> written (trace w') = written (trace w)"

definition one_write :: "('s, 'n) world \<Rightarrow> ('s, 'n) world \<Rightarrow> bool" where
  "one_write w w' \<longleftrightarrow>
     (case DATA_FILE w' of
        Doc d \<Rightarrow> written (trace w') = written (trace w) @ [d]
      | _ \<Rightarrow> False)"


text \<open>
  \<open>wrote w w' d\<close>: between \<open>w\<close> and \<open>w'\<close> exactly one document was written, it is \<open>d\<close>, and
  \<open>d\<close> is the content of the file.
\<close>

definition wrote :: "('s, 'n) world \<Rightarrow> ('s, 'n) world \<Rightarrow> ('s, 'n) DataStore \<Rightarrow> bool" where
  "wrote w w' d \<longleftrightarrow> DATA_FILE w' = Doc d \<and> written (trace w') = written (trace w) @ [d]"


section \<open>The store's operations as one interface\<close>

datatype ('s, 'n) call =
    GetShoots
  | GetShootById string
  | CreateShoot "('s, 'n) ShootFormData"
  | UpdateShoot string "('s, 'n) ShootFormData"
  | DeleteShoot string
  | MoveShootToEdited string
  | GetEditedShoots
  | GetEditedShootById string
  | UpdateEditedShoot string "('s, 'n) ShootFormData"
  | MoveEditedShootBack string
  | DeleteEditedShoot string

datatype ('s, 'n) outcome =
    ShootList "('s, 'n) Shoot list"
  | ShootOrNull "('s, 'n) Shoot option"
  | EditedList "('s, 'n) EditedShoot list"
  | EditedOrNull "('s, 'n) EditedShoot option"
  | Flag bool

text \<open>
  \<open>invoke c uuid now w\<close> runs one exported function of storage.ts; \<open>uuid\<close> is what
  \<open>randomUUID()\<close> returns in this call and \<open>now\<close> what \<open>new Date().toISOString()\<close> returns.
\<close>

fun invoke ::
  "('s, 'n) call \<Rightarrow> string \<Rightarrow> string \<Rightarrow> ('s, 'n) world \<Rightarrow> ('s, 'n) outcome \<times> ('s, 'n) world" where
  "invoke GetShoots uuid now w = map_prod ShootList (\<lambda>w. w) (getShoots w)"
| "invoke (GetShootById i) uuid now w = map_prod ShootOrNull (\<lambda>w. w) (getShootById i w)"
| "invoke (CreateShoot form) uuid now w =
     map_prod (\<lambda>s. ShootOrNull (Some s)) (\<lambda>w. w) (createShoot form uuid now w)"
| "invoke (UpdateShoot i form) uuid now w =
     map_prod ShootOrNull (\<lambda>w. w) (updateShoot i form now w)"
| "invoke (DeleteShoot i) uuid now w = map_prod Flag (\<lambda>w. w) (deleteShoot i w)"
| "invoke (MoveShootToEdited i) uuid now w =
     map_prod EditedOrNull (\<lambda>w. w) (moveShootToEdited i uuid now w)"
| "invoke GetEditedShoots uuid now w = map_prod EditedList (\<lambda>w. w) (getEditedShoots w)"
| "invoke (GetEditedShootById i) uuid now w =
     map_prod EditedOrNull (\<lambda>w. w) (getEditedShootById i w)"
| "invoke (UpdateEditedShoot i form) uuid now w =
     map_prod EditedOrNull (\<lambda>w. w) (updateEditedShoot i form now w)"
| "invoke (MoveEditedShootBack i) uuid now w =
     map_prod ShootOrNull (\<lambda>w. w) (moveEditedShootBack i uuid now w)"
| "invoke (DeleteEditedShoot i) uuid now w = map_prod Flag (\<lambda>w. w) (deleteEditedShoot i w)"









section \<open>The API facade (server/routes.ts)\<close>

text \<open>
  A JavaScript number: a finite value, an infinity or NaN. No arithmetic is done on it
  here (\<open>+0\<close> and \<open>-0\<close> are both \<open>Fin 0\<close>). A value of a request body is a parsed JSON
  value, or \<open>undefined\<close> for a property the body does not have.
\<close>

datatype jsnum = NaN | PosInfinity | NegInfinity | Fin rat

datatype jsval =
    JUndefined
  | JNull
  | JBool bool
  | JNum jsnum
  | JStr string
  | JArr "jsval list"
  | JObj "(string \<times> jsval) list"

text \<open>
  \<open>req.body\<close> is the list of properties of the parsed JSON object (a later duplicate of a
  key wins, as in \<open>JSON.parse\<close>); \<open>getProp body k\<close> is what the destructuring
  \<open>const { k } = req.body\<close> binds.
\<close>

type_synonym body = "(string \<times> jsval) list"

definition getProp :: "body \<Rightarrow> string \<Rightarrow> jsval" where
  "getProp b k = (case map_of (rev b) k of None \<Rightarrow> JUndefined | Some v \<Rightarrow> v)"

text \<open>\<open>!v\<close> is \<open>\<not> truthy v\<close>; \<open>v == null\<close> is \<open>nullish v\<close>.\<close>

fun truthy :: "jsval \<Rightarrow> bool" where
  "truthy JUndefined = False"
| "truthy JNull = False"
| "truthy (JBool b) = b"
| "truthy (JNum n) = (n \<noteq> Fin 0 \<and> n \<noteq> NaN)"
| "truthy (JStr s) = (s \<noteq> [])"
| "truthy (JArr xs) = True"
| "truthy (JObj kvs) = True"

fun nullish :: "jsval \<Rightarrow> bool" where
  "nullish JUndefined = True"
| "nullish JNull = True"
| "nullish v = False"

text \<open>
  \<open>Number(v)\<close>. On \<open>undefined\<close>, \<open>null\<close>, booleans and numbers ECMAScript's conversion is
  written out. On strings, arrays and objects it is the parameter \<open>conv\<close> (the language's
  string-to-number grammar and \<open>ToPrimitive\<close>), whose \<open>None\<close> is a thrown TypeError.
\<close>

fun Number :: "(jsval \<Rightarrow> jsnum option) \<Rightarrow> jsval \<Rightarrow> jsnum option" where
  "Number conv JUndefined = Some NaN"
| "Number conv JNull = Some (Fin 0)"
| "Number conv (JBool b) = Some (Fin (if b then 1 else 0))"
| "Number conv (JNum n) = Some n"
| "Number conv v = conv v"

datatype ('s, 'n) payload =
    Message string
  | ShootJson "('s, 'n) Shoot"
  | ShootsJson "('s, 'n) Shoot list"
  | EditedShootJson "('s, 'n) EditedShoot"
  | EditedShootsJson "('s, 'n) EditedShoot list"

text \<open>A handler answers with a status and a JSON payload, or throws.\<close>

datatype ('s, 'n) response = Response nat "('s, 'n) payload" | Threw

text \<open>The HTTP status of a response, if the handler returned one.\<close>

fun status :: "('s, 'n) response \<Rightarrow> nat option" where
  "status (Response code p) = Some code"
| "status Threw = None"

type_synonym server = "(jsval, jsnum) world"

definition get_shoots :: "server \<Rightarrow> (jsval, jsnum) response \<times> server" where
  "get_shoots w = (let (r, w1) = getShoots w in (Response 200 (ShootsJson r), w1))"

definition get_shoot :: "string \<Rightarrow> server \<Rightarrow> (jsval, jsnum) response \<times> server" where
  "get_shoot i w =
     (let (shoot, w1) = getShootById i w in
      case shoot of
        None \<Rightarrow> (Response 404 (Message ''Shoot not found''), w1)
      | Some s \<Rightarrow> (Response 200 (ShootJson s), w1))"

definition post_shoots ::
  "(jsval \<Rightarrow> jsnum option) \<Rightarrow> body \<Rightarrow> string \<Rightarrow> string \<Rightarrow> server
     \<Rightarrow> (jsval, jsnum) response \<times> server" where
  "post_shoots conv b uuid now w =
     (let modelName = getProp b ''modelName'';
          salonName = getProp b ''salonName'';
          date = getProp b ''date'';
          price = getProp b ''price''
      in if \<not> truthy modelName \<or> \<not> truthy salonName \<or> \<not> truthy date \<or> nullish price
         then (Response 400 (Message ''All fields are required''), w)
         else case Number conv price of
                None \<Rightarrow> (Threw, w)
              | Some p \<Rightarrow>
                  (let (shoot, w1) =
                         createShoot \<lparr>ShootFormData.modelName = modelName, salonName = salonName,
                                      date = date, price = p\<rparr> uuid now w
                   in (Response 201 (ShootJson shoot), w1)))"

definition put_shoot ::
  "(jsval \<Rightarrow> jsnum option) \<Rightarrow> string \<Rightarrow> body \<Rightarrow> string \<Rightarrow> server
     \<Rightarrow> (jsval, jsnum) response \<times> server" where
  "put_shoot conv i b now w =
     (let modelName = getProp b ''modelName'';
          salonName = getProp b ''salonName'';
          date = getProp b ''date'';
          price = getProp b ''price''
      in if \<not> truthy modelName \<or> \<not> truthy salonName \<or> \<not> truthy date \<or> nullish price
         then (Response 400 (Message ''All fields are required''), w)
         else case Number conv price of
                None \<Rightarrow> (Threw, w)
              | Some p \<Rightarrow>
                  (let (shoot, w1) =
                         updateShoot i \<lparr>ShootFormData.modelName = modelName, salonName = salonName,
                                        date = date, price = p\<rparr> now w
                   in case shoot of
                        None \<Rightarrow> (Response 404 (Message ''Shoot not found''), w1)
                      | Some s \<Rightarrow> (Response 200 (ShootJson s), w1)))"

definition delete_shoot :: "string \<Rightarrow> server \<Rightarrow> (jsval, jsnum) response \<times> server" where
  "delete_shoot i w =
     (let (ok, w1) = deleteShoot i w in
      if \<not> ok then (Response 404 (Message ''Shoot not found''), w1)
      else (Response 200 (Message ''Shoot deleted''), w1))"

definition post_move_to_edited ::
  "string \<Rightarrow> string \<Rightarrow> string \<Rightarrow> server \<Rightarrow> (jsval, jsnum) response \<times> server" where
  "post_move_to_edited i uuid now w =
     (let (edited, w1) = moveShootToEdited i uuid now w in
      case edited of
        None \<Rightarrow> (Response 404 (Message ''Shoot not found''), w1)
      | Some e \<Rightarrow> (Response 201 (EditedShootJson e), w1))"

definition get_edited_shoots :: "server \<Rightarrow> (jsval, jsnum) response \<times> server" where
  "get_edited_shoots w =
     (let (r, w1) = getEditedShoots w in (Response 200 (EditedShootsJson r), w1))"

definition put_edited_shoot ::
  "(jsval \<Rightarrow> jsnum option) \<Rightarrow> string \<Rightarrow> body \<Rightarrow> string \<Rightarrow> server
     \<Rightarrow> (jsval, jsnum) response \<times> server" where
  "put_edited_shoot conv i b now w =
     (let modelName = getProp b ''modelName'';
          salonName = getProp b ''salonName'';
          date = getProp b ''date'';
          price = getProp b ''price''
      in if \<not> truthy modelName \<or> \<not> truthy salonName \<or> \<not> truthy date \<or> nullish price
         then (Response 400 (Message ''All fields are required''), w)
         else case Number conv price of
                None \<Rightarrow> (Threw, w)
              | Some p \<Rightarrow>
                  (let (edited, w1) =
                         updateEditedShoot i
                           \<lparr>ShootFormData.modelName = modelName, salonName = salonName,
                            date = date, price = p\<rparr> now w
                   in case edited of
                        None \<Rightarrow> (Response 404 (Message ''Edited shoot not found''), w1)
                      | Some e \<Rightarrow> (Response 200 (EditedShootJson e), w1)))"

definition post_move_back ::
  "string \<Rightarrow> string \<Rightarrow> string \<Rightarrow> server \<Rightarrow> (jsval, jsnum) response \<times> server" where
  "post_move_back i uuid now w =
     (let (shoot, w1) = moveEditedShootBack i uuid now w in
      case shoot of
        None \<Rightarrow> (Response 404 (Message ''Edited shoot not found''), w1)
      | Some s \<Rightarrow> (Response 201 (ShootJson s), w1))"

definition delete_edited_shoot :: "string \<Rightarrow> server \<Rightarrow> (jsval, jsnum) response \<times> server" where
  "delete_edited_shoot i w =
     (let (ok, w1) = deleteEditedShoot i w in
      if \<not> ok then (Response 404 (Message ''Edited shoot not found''), w1)
      else (Response 200 (Message ''Edited shoot deleted''), w1))"

text \<open>
  The spec's words for a price at the API boundary: a finite, non-negative number.
\<close>

fun finite_nonneg :: "jsnum \<Rightarrow> bool" where
  "finite_nonneg (Fin r) = (0 \<le> r)"
| "finite_nonneg n = False"


section \<open>Monthly statistics (app/(tabs)/stats.tsx)\<close>

definition MONTHS :: "string list" where
  "MONTHS =
     [''January'', ''February'', ''March'', ''April'', ''May'', ''June'',
      ''July'', ''August'', ''September'', ''October'', ''November'', ''December'']"

text \<open>
  How a template literal prints a number that is an integer or NaN: decimal digits, with
  a leading minus sign for a negative integer.
\<close>

definition digit :: "nat \<Rightarrow> char" where
  "digit n = ''0123456789'' ! n"

function show_nat :: "nat \<Rightarrow> string" where
  "show_nat n = (if n < 10 then [digit n] else show_nat (n div 10) @ [digit (n mod 10)])"
  by pat_completeness auto
termination
  by (relation "measure (\<lambda>n. n)") auto

declare show_nat.simps [simp del]

definition show_int :: "int \<Rightarrow> string" where
  "show_int i = (if i < 0 then CHR ''-'' # show_nat (nat (- i)) else show_nat (nat i))"

definition toString :: "int option \<Rightarrow> string" where
  "toString v = (case v of None \<Rightarrow> ''NaN'' | Some i \<Rightarrow> show_int i)"

text \<open>
  A \<open>Map<string, MonthlyStats>\<close> keeps its entries in insertion order; \<open>set\<close> on a key it
  has replaces the value in place. The statistics objects are shared by reference with
  the map, so the two \<open>+=\<close> on \<open>stat\<close> change the entry of the map: a \<open>map_set\<close> on the
  same key.
\<close>

type_synonym 'v js_map = "(string \<times> 'v) list"

definition map_has :: "'v js_map \<Rightarrow> string \<Rightarrow> bool" where
  "map_has m k = (case map_of m k of None \<Rightarrow> False | Some v \<Rightarrow> True)"

definition map_get :: "'v js_map \<Rightarrow> string \<Rightarrow> 'v option" where
  "map_get m k = map_of m k"

fun map_set :: "string \<Rightarrow> 'v \<Rightarrow> 'v js_map \<Rightarrow> 'v js_map" where
  "map_set k v [] = [(k, v)]"
| "map_set k v (e # m) = (if fst e = k then (k, v) # m else e # map_set k v m)"

definition map_values :: "'v js_map \<Rightarrow> 'v list" where
  "map_values m = map snd m"

text \<open>
  The body of the \<open>forEach\<close>. \<open>D\<close> stands for \<open>new Date(shoot.date)\<close> read through
  \<open>getFullYear()\<close> and \<open>getMonth()\<close>: \<open>Some (year, monthNumber)\<close>, or \<open>None\<close> for an Invalid
  Date, whose year and month are both NaN (\<open>None\<close> in the statistics record, and
  \<open>MONTHS[NaN]\<close> is \<open>undefined\<close>). Prices are added with the \<open>+\<close> of the number type.
\<close>

definition addShoot ::
  "('s \<Rightarrow> (int \<times> nat) option) \<Rightarrow> ('n::{plus,zero}) MonthlyStats js_map \<Rightarrow> ('s, 'n) Shoot
     \<Rightarrow> 'n MonthlyStats js_map" where
  "addShoot D m shoot =
     (let d = D (Shoot.date shoot);
          year = map_option fst d;
          monthNumber = map_option snd d;
          key = toString year @ ''-'' @ toString (map_option int monthNumber);
          m1 = (if \<not> map_has m key
                then map_set key
                       \<lparr>month = (case monthNumber of
                                   None \<Rightarrow> None
                                 | Some i \<Rightarrow> if i < length MONTHS then Some (MONTHS ! i) else None),
                        year = year,
                        monthNumber = monthNumber,
                        shootCount = 0,
                        totalEarnings = 0\<rparr> m
                else m)
      in case map_get m1 key of
           None \<Rightarrow> m1
         | Some stat \<Rightarrow>
             map_set key
               (stat\<lparr>shootCount := shootCount stat + 1,
                     totalEarnings := totalEarnings stat + Shoot.price shoot\<rparr>) m1)"

text \<open>
  The comparator of the final \<open>sort\<close>; \<open>None\<close> is a NaN result. \<open>a.year !== b.year\<close> holds
  as soon as one of the two is NaN.
\<close>

definition js_minus :: "int option \<Rightarrow> int option \<Rightarrow> int option" where
  "js_minus x y = (case (x, y) of (Some a, Some b) \<Rightarrow> Some (a - b) | _ \<Rightarrow> None)"

definition compareStats :: "'n MonthlyStats \<Rightarrow> 'n MonthlyStats \<Rightarrow> int option" where
  "compareStats a b =
     (if year a = None \<or> year b = None \<or> year a \<noteq> year b
      then js_minus (year b) (year a)
      else js_minus (map_option int (monthNumber b)) (map_option int (monthNumber a)))"

text \<open>
  \<open>Array.prototype.sort\<close> with a comparator is stable, puts \<open>x\<close> before \<open>y\<close> when the
  comparator is negative on \<open>(x, y)\<close>, and reads a NaN result as \<open>0\<close>. For a consistent
  comparator every such sort gives the same list; it is written here as a stable
  insertion sort, which is therefore the code's sort on the lists whose dates are all
  valid. When the comparator is not consistent, which here takes an Invalid Date next to
  other months, ECMAScript leaves the order to the implementation, and an engine's sort
  may order the buckets differently from the insertion sort. On such a list the model is
  used only where the sort compares neighbours, gets NaN each time and moves nothing, as
  an insertion sort and a run-detecting merge sort both do.
\<close>

fun insertSorted :: "('a \<Rightarrow> 'a \<Rightarrow> int option) \<Rightarrow> 'a \<Rightarrow> 'a list \<Rightarrow> 'a list" where
  "insertSorted cmp x [] = [x]"
| "insertSorted cmp x (y # ys) =
     (if (case cmp x y of None \<Rightarrow> True | Some c \<Rightarrow> c \<le> 0) then x # y # ys
      else y # insertSorted cmp x ys)"

definition sortBy :: "('a \<Rightarrow> 'a \<Rightarrow> int option) \<Rightarrow> 'a list \<Rightarrow> 'a list" where
  "sortBy cmp xs = foldr (insertSorted cmp) xs []"

text \<open>\<open>goes_first cmp x y\<close>: the sort leaves \<open>x\<close> before \<open>y\<close> when it compares them.\<close>

definition goes_first :: "('a \<Rightarrow> 'a \<Rightarrow> int option) \<Rightarrow> 'a \<Rightarrow> 'a \<Rightarrow> bool" where
  "goes_first cmp x y = (case cmp x y of None \<Rightarrow> True | Some c \<Rightarrow> c \<le> 0)"

definition computeMonthlyStats ::
  "('s \<Rightarrow> (int \<times> nat) option) \<Rightarrow> ('s, 'n::{plus,zero}) Shoot list \<Rightarrow> 'n MonthlyStats list" where
  "computeMonthlyStats D xs =
     sortBy compareStats (map_values (foldl (addShoot D) [] xs))"

text \<open>
  The words of the specification, to compare \<open>computeMonthlyStats\<close> with. A group is a
  value \<open>d\<close> of \<open>D\<close> on the dates of the list: a year and a month, or \<open>None\<close> for the
  dates that are no dates. \<open>groups\<close> lists the groups in the order of their first shoot;
  \<open>shootsOfMonth\<close> are the shoots of a group, \<open>sumPrices\<close> adds their prices in the order
  of the list, starting from \<open>0\<close>; \<open>bucketOf\<close> is the bucket of a group, and
  \<open>later_month a b\<close> says that the bucket \<open>a\<close> is of a later month than \<open>b\<close>.
\<close>

definition groups ::
  "('s \<Rightarrow> (int \<times> nat) option) \<Rightarrow> ('s, 'n) Shoot list \<Rightarrow> (int \<times> nat) option list" where
  "groups D xs = rev (remdups (rev (map (\<lambda>s. D (Shoot.date s)) xs)))"

definition shootsOfMonth ::
  "('s \<Rightarrow> (int \<times> nat) option) \<Rightarrow> (int \<times> nat) option \<Rightarrow> ('s, 'n) Shoot list
     \<Rightarrow> ('s, 'n) Shoot list" where
  "shootsOfMonth D d xs = filter (\<lambda>s. D (Shoot.date s) = d) xs"

definition sumPrices :: "('s, 'n::{plus,zero}) Shoot list \<Rightarrow> 'n" where
  "sumPrices xs = foldl (\<lambda>acc s. acc + Shoot.price s) 0 xs"

definition bucketOf ::
  "('s \<Rightarrow> (int \<times> nat) option) \<Rightarrow> (int \<times> nat) option \<Rightarrow> ('s, 'n::{plus,zero}) Shoot list
     \<Rightarrow> 'n MonthlyStats" where
  "bucketOf D d xs =
     \<lparr>month = (case map_option snd d of
                 None \<Rightarrow> None
               | Some i \<Rightarrow> if i < length MONTHS then Some (MONTHS ! i) else None),
      year = map_option fst d,
      monthNumber = map_option snd d,
      shootCount = length (shootsOfMonth D d xs),
      totalEarnings = sumPrices (shootsOfMonth D d xs)\<rparr>"

definition later_month :: "'n MonthlyStats \<Rightarrow> 'n MonthlyStats \<Rightarrow> bool" where
  "later_month a b =
     (case (year a, monthNumber a, year b, monthNumber b) of
        (Some ya, Some ma, Some yb, Some mb) \<Rightarrow> yb < ya \<or> (yb = ya \<and> mb < ma)
      | _ \<Rightarrow> False)"

text \<open>The key of a group in the map, as the template literal builds it.\<close>

definition monthKey :: "(int \<times> nat) option \<Rightarrow> string" where
  "monthKey d =
     toString (map_option fst d) @ ''-'' @ toString (map_option int (map_option snd d))"


section \<open>Sample data for the closed examples\<close>

text \<open>
  A store with no file yet (\<open>w0\<close>), the same store right after one \<open>createShoot\<close> (\<open>w1\<close>,
  holding \<open>shoot1\<close>), and a store with one record in each bucket (\<open>w2\<close>). Their text fields
  are strings and their prices exact rationals.
\<close>

definition w0 :: "(string, rat) world" where
  "w0 = \<lparr>DATA_FILE = Missing, trace = []\<rparr>"

definition ava :: "(string, rat) ShootFormData" where
  "ava = \<lparr>ShootFormData.modelName = ''Ava'', salonName = ''Luxe'',
          date = ''2024-03-01'', price = 150\<rparr>"


definition shoot1 :: "(string, rat) Shoot" where
  "shoot1 = \<lparr>Shoot.id = ''u1'', modelName = ''Ava'', salonName = ''Luxe'',
             date = ''2024-03-01'', price = 150,
             createdAt = ''2024-03-01T10:00:00.000Z'',
             updatedAt = ''2024-03-01T10:00:00.000Z''\<rparr>"

definition w1 :: "(string, rat) world" where
  "w1 = snd (createShoot ava ''u1'' ''2024-03-01T10:00:00.000Z'' w0)"


definition edited2 :: "(string, rat) EditedShoot" where
  "edited2 = \<lparr>EditedShoot.id = ''u2'', originalShootId = ''u0'', modelName = ''Bea'',
              salonName = ''Glow'', date = ''2024-02-10'', price = 80,
              createdAt = ''2024-02-10T08:00:00.000Z'',
              editedAt = ''2024-02-11T08:00:00.000Z''\<rparr>"

definition w2 :: "(string, rat) world" where
  "w2 = \<lparr>DATA_FILE = Doc \<lparr>shoots = [shoot1], editedShoots = [edited2]\<rparr>, trace = []\<rparr>"

definition bea :: "(string, rat) ShootFormData" where
  "bea = \<lparr>ShootFormData.modelName = ''Bea'', salonName = ''Glow'',
          date = ''2024-04-01'', price = 90\<rparr>"

text \<open>
  For the facade: a server with no file yet, request bodies, and an instance of the
  conversion parameter of \<open>Number\<close>. The examples never convert a string, an array or an
  object, so the instance is not consulted; it returns NaN, as \<open>Number\<close> does on \<open>{}\<close>.
\<close>

definition conv_NaN :: "jsval \<Rightarrow> jsnum option" where
  "conv_NaN v = Some NaN"

definition ws0 :: server where
  "ws0 = \<lparr>DATA_FILE = Missing, trace = []\<rparr>"

definition body_price :: "jsval \<Rightarrow> body" where
  "body_price v =
     [(''modelName'', JStr ''Ava''), (''salonName'', JStr ''Luxe''),
      (''date'', JStr ''2024-03-01''), (''price'', v)]"

definition body_no_name :: body where
  "body_no_name =
     [(''modelName'', JStr ''''), (''salonName'', JStr ''Luxe''),
      (''date'', JStr ''2024-03-01''), (''price'', JNum (Fin 150))]"

text \<open>
  A price on which \<open>Number\<close> throws: an object whose own \<open>valueOf\<close> and \<open>toString\<close> are numbers,
  hence not callable, so that the conversion to a primitive raises a TypeError. The second
  instance of the conversion parameter throws on that object and returns NaN elsewhere.
\<close>

definition not_callable :: jsval where
  "not_callable = JObj [(''valueOf'', JNum (Fin 1)), (''toString'', JNum (Fin 1))]"

definition conv_TypeError :: "jsval \<Rightarrow> jsnum option" where
  "conv_TypeError v = (if v = not_callable then None else Some NaN)"




text \<open>
  For the statistics: two shoots of January 2024, one of May 2023, one of May 2024 and one
  whose date is no date, with a reading of their dates (in every time zone the 10th and
  the 20th of a month fall in that month; months count from 0).
\<close>

definition sample_dates :: "string \<Rightarrow> (int \<times> nat) option" where
  "sample_dates s =
     (if s = ''2024-01-10'' \<or> s = ''2024-01-20'' then Some (2024, 0)
      else if s = ''2023-05-10'' then Some (2023, 4)
      else if s = ''2024-05-10'' then Some (2024, 4)
      else None)"

definition jan10 :: "(string, rat) Shoot" where
  "jan10 = \<lparr>Shoot.id = ''a1'', modelName = ''Ava'', salonName = ''Luxe'',
            date = ''2024-01-10'', price = 100,
            createdAt = ''2024-01-02T10:00:00.000Z'',
            updatedAt = ''2024-01-02T10:00:00.000Z''\<rparr>"

definition jan20 :: "(string, rat) Shoot" where
  "jan20 = \<lparr>Shoot.id = ''a2'', modelName = ''Bea'', salonName = ''Glow'',
            date = ''2024-01-20'', price = 50,
            createdAt = ''2024-01-03T10:00:00.000Z'',
            updatedAt = ''2024-01-03T10:00:00.000Z''\<rparr>"

definition may23 :: "(string, rat) Shoot" where
  "may23 = \<lparr>Shoot.id = ''b1'', modelName = ''Cleo'', salonName = ''Luxe'',
            date = ''2023-05-10'', price = 200,
            createdAt = ''2023-05-02T10:00:00.000Z'',
            updatedAt = ''2023-05-02T10:00:00.000Z''\<rparr>"

definition may24 :: "(string, rat) Shoot" where
  "may24 = \<lparr>Shoot.id = ''b2'', modelName = ''Dina'', salonName = ''Glow'',
            date = ''2024-05-10'', price = 300,
            createdAt = ''2024-05-02T10:00:00.000Z'',
            updatedAt = ''2024-05-02T10:00:00.000Z''\<rparr>"

definition nodate :: "(string, rat) Shoot" where
  "nodate = \<lparr>Shoot.id = ''b3'', modelName = ''Eve'', salonName = ''Glow'',
             date = ''garbage'', price = 70,
             createdAt = ''2024-05-03T10:00:00.000Z'',
             updatedAt = ''2024-05-03T10:00:00.000Z''\<rparr>"


section \<open>Basic facts about the store\<close>

lemma fst_readData:
  "fst (readData w) = (case DATA_FILE w of Doc d \<Rightarrow> d | _ \<Rightarrow> emptyStore)"
  by (simp add: readData_def split: data_file.splits)

lemma DATA_FILE_readData [simp]: "DATA_FILE (snd (readData w)) = DATA_FILE w"
  by (simp add: readData_def split: data_file.splits)

lemma fst_readData_writeData [simp]: "fst (readData (writeData d w)) = d"
  by (simp add: readData_def writeData_def)

lemma fst_readData_snd_readData [simp]:
  "fst (readData (snd (readData w))) = fst (readData w)"
  by (simp add: fst_readData)

lemma findIndex_None_iff: "findIndex P xs = None \<longleftrightarrow> (\<forall>x\<in>set xs. \<not> P x)"
  by (induction xs) auto

lemma findIndex_SomeD:
  "findIndex P xs = Some i \<Longrightarrow> i < length xs \<and> P (xs ! i) \<and> (\<forall>j<i. \<not> P (xs ! j))"
proof (induction xs arbitrary: i)
  case Nil
  then show ?case by simp
next
  case (Cons x xs)
  show ?case
  proof (cases "P x")
    case True
    with Cons.prems show ?thesis by simp
  next
    case False
    with Cons.prems obtain k where k: "findIndex P xs = Some k" "i = Suc k"
      by auto
    from Cons.IH [OF k(1)] False k(2) show ?thesis
      by (auto simp: nth_Cons split: nat.splits)
  qed
qed

lemma find_append_fresh:
  "\<forall>x\<in>set xs. \<not> P x \<Longrightarrow> P y \<Longrightarrow> find P (xs @ [y]) = Some y"
  by (induction xs) auto

lemma fst_createShoot:
  "fst (createShoot form uuid now w) =
     \<lparr>Shoot.id = uuid,
      modelName = ShootFormData.modelName form,
      salonName = ShootFormData.salonName form,
      date = ShootFormData.date form,
      price = ShootFormData.price form,
      createdAt = now,
      updatedAt = now\<rparr>"
  by (simp add: createShoot_def split_beta Let_def)

lemma pending_createShoot:
  "pending (snd (createShoot form uuid now w)) =
     pending w @ [fst (createShoot form uuid now w)]"
  by (simp add: createShoot_def pending_def split_beta Let_def)

lemma fst_getShootById: "fst (getShootById i w) = find (\<lambda>s. Shoot.id s = i) (pending w)"
  by (simp add: getShootById_def pending_def split_beta)


section \<open>Create, then read back\<close>

text \<open>
  Claim C6. For every form, \<open>createShoot\<close> followed by \<open>getShootById\<close> on the identifier of
  the record it returned finds a record with the form's model name, salon name, date and
  price, whose \<open>createdAt\<close> equals its \<open>updatedAt\<close>. The identifier \<open>randomUUID()\<close> gave is
  taken not to be carried by a Pending record already.
\<close>

theorem createShoot_then_getShootById:
  assumes "uuid \<notin> Shoot.id ` set (pending w)"
  shows "\<exists>r. fst (getShootById (Shoot.id (fst (createShoot form uuid now w)))
                  (snd (createShoot form uuid now w))) = Some r
             \<and> Shoot.modelName r = ShootFormData.modelName form
             \<and> Shoot.salonName r = ShootFormData.salonName form
             \<and> Shoot.date r = ShootFormData.date form
             \<and> Shoot.price r = ShootFormData.price form
             \<and> Shoot.createdAt r = Shoot.updatedAt r"
proof -
  let ?shoot = "fst (createShoot form uuid now w)"
  have i: "Shoot.id ?shoot = uuid"
    by (simp add: fst_createShoot)
  from assms have "\<forall>x\<in>set (pending w). \<not> Shoot.id x = uuid"
    by auto
  then have "find (\<lambda>s. Shoot.id s = uuid) (pending w @ [?shoot]) = Some ?shoot"
    using i by (rule find_append_fresh)
  then have "fst (getShootById (Shoot.id ?shoot) (snd (createShoot form uuid now w)))
      = Some ?shoot"
    by (simp add: fst_getShootById pending_createShoot i)
  then show ?thesis
    by (simp add: fst_createShoot)
qed

theorem createShoot_then_getShootById_witness:
  "''u1'' \<notin> Shoot.id ` set (pending w0) \<and>
   (\<exists>r. fst (getShootById (Shoot.id (fst (createShoot ava ''u1'' ''t1'' w0)))
                  (snd (createShoot ava ''u1'' ''t1'' w0))) = Some r
             \<and> Shoot.modelName r = ''Ava''
             \<and> Shoot.salonName r = ''Luxe''
             \<and> Shoot.date r = ''2024-03-01''
             \<and> Shoot.price r = 150
             \<and> Shoot.createdAt r = Shoot.updatedAt r)"
proof -
  have h: "''u1'' \<notin> Shoot.id ` set (pending w0)"
    by (simp add: pending_def w0_def readData_def emptyStore_def)
  from createShoot_then_getShootById [OF h, of ava "''t1''"] h show ?thesis
    by (simp add: ava_def)
qed

lemma splice1_Cons_Suc: "splice1 (Suc k) (x # xs) = x # splice1 k xs"
  by (simp add: splice1_def)

lemma splice1_findIndex:
  "distinct (map f xs) \<Longrightarrow> findIndex (\<lambda>x. f x = k) xs = Some idx \<Longrightarrow>
     splice1 idx xs = filter (\<lambda>x. f x \<noteq> k) xs"
proof (induction xs arbitrary: idx)
  case Nil
  then show ?case by simp
next
  case (Cons x xs)
  show ?case
  proof (cases "f x = k")
    case True
    with Cons.prems have "idx = 0" by simp
    moreover from True Cons.prems(1) have "\<forall>y\<in>set xs. f y \<noteq> k" by (auto simp: image_iff)
    then have "filter (\<lambda>x. f x \<noteq> k) xs = xs" by simp
    ultimately show ?thesis using True by (simp add: splice1_def)
  next
    case False
    with Cons.prems obtain j where j: "findIndex (\<lambda>x. f x = k) xs = Some j" "idx = Suc j"
      by auto
    from Cons.prems(1) have "distinct (map f xs)" by simp
    from Cons.IH [OF this j(1)] False j(2) show ?thesis
      by (simp add: splice1_Cons_Suc)
  qed
qed

lemma findIndex_Some_iff_mem:
  "(\<exists>idx. findIndex P xs = Some idx) \<longleftrightarrow> (\<exists>x\<in>set xs. P x)"
  using findIndex_None_iff [of P xs] by (cases "findIndex P xs") auto

lemma moveShootToEdited_None:
  "findIndex (\<lambda>s. Shoot.id s = i) (pending w) = None \<Longrightarrow>
     moveShootToEdited i uuid now w = (None, snd (readData w))"
  by (simp add: moveShootToEdited_def pending_def split_beta)

lemma moveShootToEdited_Some:
  assumes "findIndex (\<lambda>s. Shoot.id s = i) (pending w) = Some idx"
  shows "fst (moveShootToEdited i uuid now w) =
           Some \<lparr>EditedShoot.id = uuid,
                 originalShootId = Shoot.id (pending w ! idx),
                 modelName = Shoot.modelName (pending w ! idx),
                 salonName = Shoot.salonName (pending w ! idx),
                 date = Shoot.date (pending w ! idx),
                 price = Shoot.price (pending w ! idx),
                 createdAt = Shoot.createdAt (pending w ! idx),
                 editedAt = now\<rparr>"
    and "pending (snd (moveShootToEdited i uuid now w)) = splice1 idx (pending w)"
    and "edited (snd (moveShootToEdited i uuid now w)) =
           edited w @ [the (fst (moveShootToEdited i uuid now w))]"
    and "snd (moveShootToEdited i uuid now w) =
           writeData (fst (readData (snd (moveShootToEdited i uuid now w)))) (snd (readData w))"
  using assms
  by (simp_all add: moveShootToEdited_def pending_def edited_def split_beta Let_def)

lemma moveEditedShootBack_None:
  "findIndex (\<lambda>s. EditedShoot.id s = i) (edited w) = None \<Longrightarrow>
     moveEditedShootBack i uuid now w = (None, snd (readData w))"
  by (simp add: moveEditedShootBack_def edited_def split_beta)

lemma moveEditedShootBack_Some:
  assumes "findIndex (\<lambda>s. EditedShoot.id s = i) (edited w) = Some idx"
  shows "fst (moveEditedShootBack i uuid now w) =
           Some \<lparr>Shoot.id = uuid,
                 modelName = EditedShoot.modelName (edited w ! idx),
                 salonName = EditedShoot.salonName (edited w ! idx),
                 date = EditedShoot.date (edited w ! idx),
                 price = EditedShoot.price (edited w ! idx),
                 createdAt = EditedShoot.createdAt (edited w ! idx),
                 updatedAt = now\<rparr>"
    and "edited (snd (moveEditedShootBack i uuid now w)) = splice1 idx (edited w)"
    and "pending (snd (moveEditedShootBack i uuid now w)) =
           pending w @ [the (fst (moveEditedShootBack i uuid now w))]"
    and "snd (moveEditedShootBack i uuid now w) =
           writeData (fst (readData (snd (moveEditedShootBack i uuid now w)))) (snd (readData w))"
  using assms
  by (simp_all add: moveEditedShootBack_def pending_def edited_def split_beta Let_def)

lemma updateShoot_None:
  "findIndex (\<lambda>s. Shoot.id s = i) (pending w) = None \<Longrightarrow>
     updateShoot i form now w = (None, snd (readData w))"
  by (simp add: updateShoot_def pending_def split_beta)

lemma updateShoot_Some:
  assumes "findIndex (\<lambda>s. Shoot.id s = i) (pending w) = Some idx"
  shows "fst (updateShoot i form now w) =
           Some ((pending w ! idx)
                  \<lparr>Shoot.modelName := ShootFormData.modelName form,
                   Shoot.salonName := ShootFormData.salonName form,
                   Shoot.date := ShootFormData.date form,
                   Shoot.price := ShootFormData.price form,
                   Shoot.updatedAt := now\<rparr>)"
    and "pending (snd (updateShoot i form now w)) =
           (pending w)[idx := the (fst (updateShoot i form now w))]"
    and "edited (snd (updateShoot i form now w)) = edited w"
    and "snd (updateShoot i form now w) =
           writeData (fst (readData (snd (updateShoot i form now w)))) (snd (readData w))"
  using assms
  by (simp_all add: updateShoot_def pending_def edited_def split_beta Let_def)

lemma updateEditedShoot_None:
  "findIndex (\<lambda>s. EditedShoot.id s = i) (edited w) = None \<Longrightarrow>
     updateEditedShoot i form now w = (None, snd (readData w))"
  by (simp add: updateEditedShoot_def edited_def split_beta)

lemma updateEditedShoot_Some:
  assumes "findIndex (\<lambda>s. EditedShoot.id s = i) (edited w) = Some idx"
  shows "fst (updateEditedShoot i form now w) =
           Some ((edited w ! idx)
                  \<lparr>EditedShoot.modelName := ShootFormData.modelName form,
                   EditedShoot.salonName := ShootFormData.salonName form,
                   EditedShoot.date := ShootFormData.date form,
                   EditedShoot.price := ShootFormData.price form,
                   EditedShoot.editedAt := now\<rparr>)"
    and "edited (snd (updateEditedShoot i form now w)) =
           (edited w)[idx := the (fst (updateEditedShoot i form now w))]"
    and "pending (snd (updateEditedShoot i form now w)) = pending w"
    and "snd (updateEditedShoot i form now w) =
           writeData (fst (readData (snd (updateEditedShoot i form now w)))) (snd (readData w))"
  using assms
  by (simp_all add: updateEditedShoot_def pending_def edited_def split_beta Let_def)

lemma deleteShoot_None:
  "findIndex (\<lambda>s. Shoot.id s = i) (pending w) = None \<Longrightarrow>
     deleteShoot i w = (False, snd (readData w))"
  by (simp add: deleteShoot_def pending_def split_beta)

lemma deleteShoot_Some:
  assumes "findIndex (\<lambda>s. Shoot.id s = i) (pending w) = Some idx"
  shows "fst (deleteShoot i w) = True"
    and "pending (snd (deleteShoot i w)) = splice1 idx (pending w)"
    and "edited (snd (deleteShoot i w)) = edited w"
    and "snd (deleteShoot i w) =
           writeData (fst (readData (snd (deleteShoot i w)))) (snd (readData w))"
  using assms
  by (simp_all add: deleteShoot_def pending_def edited_def split_beta Let_def)

lemma deleteEditedShoot_None:
  "findIndex (\<lambda>s. EditedShoot.id s = i) (edited w) = None \<Longrightarrow>
     deleteEditedShoot i w = (False, snd (readData w))"
  by (simp add: deleteEditedShoot_def edited_def split_beta)

lemma deleteEditedShoot_Some:
  assumes "findIndex (\<lambda>s. EditedShoot.id s = i) (edited w) = Some idx"
  shows "fst (deleteEditedShoot i w) = True"
    and "edited (snd (deleteEditedShoot i w)) = splice1 idx (edited w)"
    and "pending (snd (deleteEditedShoot i w)) = pending w"
    and "snd (deleteEditedShoot i w) =
           writeData (fst (readData (snd (deleteEditedShoot i w)))) (snd (readData w))"
  using assms
  by (simp_all add: deleteEditedShoot_def pending_def edited_def split_beta Let_def)

lemma createShoot_world:
  "edited (snd (createShoot form uuid now w)) = edited w"
  "snd (createShoot form uuid now w) =
     writeData (fst (readData (snd (createShoot form uuid now w)))) (snd (readData w))"
  by (simp_all add: createShoot_def edited_def split_beta Let_def)

lemma findIndex_distinct_unique:
  assumes "distinct (map f xs)" and "s \<in> set xs"
  shows "\<exists>idx. findIndex (\<lambda>x. f x = f s) xs = Some idx \<and> xs ! idx = s"
proof -
  from assms(2) have "\<exists>x\<in>set xs. f x = f s" by auto
  then obtain idx where idx: "findIndex (\<lambda>x. f x = f s) xs = Some idx"
    using findIndex_Some_iff_mem [of "\<lambda>x. f x = f s" xs] by auto
  from findIndex_SomeD [OF idx] have "idx < length xs" "f (xs ! idx) = f s"
    by auto
  with assms have "xs ! idx = s"
    by (metis distinct_map inj_on_eq_iff nth_mem)
  with idx show ?thesis by simp
qed

section \<open>Moving a record between the buckets\<close>

text \<open>
  Claim C1. In a store whose Pending identifiers are distinct, for every Shoot \<open>s\<close> of the
  Pending bucket, \<open>moveShootToEdited\<close> on its identifier returns an EditedShoot \<open>e\<close>; the
  Pending bucket loses exactly the record with that identifier, the Edited bucket gains
  exactly \<open>e\<close> at its end, \<open>e\<close> has the model name, salon name, date, price and
  \<open>createdAt\<close> of \<open>s\<close>, its \<open>originalShootId\<close> is the identifier of \<open>s\<close>, its
  \<open>editedAt\<close> is the current time, and \<open>getShootById\<close> on the original identifier then
  finds nothing.
\<close>

theorem moveShootToEdited_moves:
  assumes "distinct (map Shoot.id (pending w))" and "s \<in> set (pending w)"
  shows "\<exists>e. fst (moveShootToEdited (Shoot.id s) uuid now w) = Some e
           \<and> pending (snd (moveShootToEdited (Shoot.id s) uuid now w))
               = filter (\<lambda>x. Shoot.id x \<noteq> Shoot.id s) (pending w)
           \<and> s \<notin> set (pending (snd (moveShootToEdited (Shoot.id s) uuid now w)))
           \<and> edited (snd (moveShootToEdited (Shoot.id s) uuid now w)) = edited w @ [e]
           \<and> EditedShoot.modelName e = Shoot.modelName s
           \<and> EditedShoot.salonName e = Shoot.salonName s
           \<and> EditedShoot.date e = Shoot.date s
           \<and> EditedShoot.price e = Shoot.price s
           \<and> EditedShoot.createdAt e = Shoot.createdAt s
           \<and> EditedShoot.originalShootId e = Shoot.id s
           \<and> EditedShoot.editedAt e = now
           \<and> fst (getShootById (Shoot.id s)
                    (snd (moveShootToEdited (Shoot.id s) uuid now w))) = None"
proof -
  let ?w' = "snd (moveShootToEdited (Shoot.id s) uuid now w)"
  from findIndex_distinct_unique [OF assms]
  obtain idx where idx: "findIndex (\<lambda>x. Shoot.id x = Shoot.id s) (pending w) = Some idx"
    and s: "pending w ! idx = s"
    by blast
  note m = moveShootToEdited_Some [OF idx, of uuid now]
  have p: "pending ?w' = filter (\<lambda>x. Shoot.id x \<noteq> Shoot.id s) (pending w)"
    using m(2) splice1_findIndex [OF assms(1) idx] by simp
  then have "fst (getShootById (Shoot.id s) ?w') = None"
    by (simp add: fst_getShootById find_None_iff)
  moreover from p have "s \<notin> set (pending ?w')"
    by simp
  ultimately show ?thesis
    using m(1) m(3) p s by simp
qed



lemma pending_w0: "pending w0 = []"
  by (simp add: pending_def w0_def readData_def emptyStore_def)

lemma edited_w0: "edited w0 = []"
  by (simp add: edited_def w0_def readData_def emptyStore_def)

lemma pending_w1: "pending w1 = [shoot1]"
  by (simp add: w1_def pending_createShoot pending_w0 fst_createShoot shoot1_def ava_def)

lemma edited_w1: "edited w1 = []"
  by (simp add: w1_def createShoot_world(1) edited_w0)

theorem moveShootToEdited_moves_witness:
  "distinct (map Shoot.id (pending w1)) \<and> shoot1 \<in> set (pending w1) \<and>
   (\<exists>e. fst (moveShootToEdited ''u1'' ''u2'' ''2024-03-02T09:00:00.000Z'' w1) = Some e
      \<and> pending (snd (moveShootToEdited ''u1'' ''u2'' ''2024-03-02T09:00:00.000Z'' w1)) = []
      \<and> edited (snd (moveShootToEdited ''u1'' ''u2'' ''2024-03-02T09:00:00.000Z'' w1)) = [e]
      \<and> EditedShoot.modelName e = ''Ava''
      \<and> EditedShoot.salonName e = ''Luxe''
      \<and> EditedShoot.date e = ''2024-03-01''
      \<and> EditedShoot.price e = 150
      \<and> EditedShoot.createdAt e = ''2024-03-01T10:00:00.000Z''
      \<and> EditedShoot.originalShootId e = ''u1''
      \<and> EditedShoot.editedAt e = ''2024-03-02T09:00:00.000Z''
      \<and> fst (getShootById ''u1''
            (snd (moveShootToEdited ''u1'' ''u2'' ''2024-03-02T09:00:00.000Z'' w1))) = None)"
proof -
  have h1: "distinct (map Shoot.id (pending w1))"
    by (simp add: pending_w1)
  have h2: "shoot1 \<in> set (pending w1)"
    by (simp add: pending_w1)
  have i: "Shoot.id shoot1 = ''u1''"
    by (simp add: shoot1_def)
  from moveShootToEdited_moves [OF h1 h2, of "''u2''" "''2024-03-02T09:00:00.000Z''"]
  show ?thesis
    unfolding i using h1 h2 by (auto simp: pending_w1 edited_w1 shoot1_def)
qed


lemma pending_w2: "pending w2 = [shoot1]"
  by (simp add: pending_def w2_def readData_def)

lemma edited_w2: "edited w2 = [edited2]"
  by (simp add: edited_def w2_def readData_def)

lemma written_append: "written (xs @ ys) = written xs @ written ys"
  by (induction xs rule: written.induct) simp_all

lemma no_write_readData: "no_write w (snd (readData w))"
  by (simp add: no_write_def readData_def written_append split: data_file.splits)

lemma one_write_writeData: "one_write w (writeData d (snd (readData w)))"
  by (simp add: one_write_def writeData_def readData_def written_append split: data_file.splits)

lemma findIndex_absent:
  "k \<notin> f ` set xs \<Longrightarrow> findIndex (\<lambda>x. f x = k) xs = None"
  by (auto simp: findIndex_None_iff)

lemma findIndex_present:
  "k \<in> f ` set xs \<Longrightarrow> \<exists>idx. findIndex (\<lambda>x. f x = k) xs = Some idx"
  by (rule iffD2 [OF findIndex_Some_iff_mem]) auto

lemma createShoot_one_write: "one_write w (snd (createShoot form uuid now w))"
  using one_write_writeData createShoot_world(2) by metis

lemma updateShoot_absent:
  "a \<notin> Shoot.id ` set (pending w) \<Longrightarrow>
     fst (updateShoot a form now w) = None \<and> no_write w (snd (updateShoot a form now w))"
  by (simp add: updateShoot_None [OF findIndex_absent] no_write_readData)

lemma deleteShoot_absent:
  "a \<notin> Shoot.id ` set (pending w) \<Longrightarrow>
     fst (deleteShoot a w) = False \<and> no_write w (snd (deleteShoot a w))"
  by (simp add: deleteShoot_None [OF findIndex_absent] no_write_readData)

lemma moveShootToEdited_absent:
  "a \<notin> Shoot.id ` set (pending w) \<Longrightarrow>
     fst (moveShootToEdited a uuid now w) = None \<and>
     no_write w (snd (moveShootToEdited a uuid now w))"
  by (simp add: moveShootToEdited_None [OF findIndex_absent] no_write_readData)

lemma updateEditedShoot_absent:
  "b \<notin> EditedShoot.id ` set (edited w) \<Longrightarrow>
     fst (updateEditedShoot b form now w) = None \<and>
     no_write w (snd (updateEditedShoot b form now w))"
  by (simp add: updateEditedShoot_None [OF findIndex_absent] no_write_readData)

lemma moveEditedShootBack_absent:
  "b \<notin> EditedShoot.id ` set (edited w) \<Longrightarrow>
     fst (moveEditedShootBack b uuid now w) = None \<and>
     no_write w (snd (moveEditedShootBack b uuid now w))"
  by (simp add: moveEditedShootBack_None [OF findIndex_absent] no_write_readData)

lemma deleteEditedShoot_absent:
  "b \<notin> EditedShoot.id ` set (edited w) \<Longrightarrow>
     fst (deleteEditedShoot b w) = False \<and> no_write w (snd (deleteEditedShoot b w))"
  by (simp add: deleteEditedShoot_None [OF findIndex_absent] no_write_readData)

lemma updateShoot_present:
  assumes "p \<in> Shoot.id ` set (pending w)"
  shows "fst (updateShoot p form now w) \<noteq> None \<and> one_write w (snd (updateShoot p form now w))"
proof -
  from findIndex_present [OF assms] obtain idx
    where idx: "findIndex (\<lambda>x. Shoot.id x = p) (pending w) = Some idx" ..
  from updateShoot_Some(1,4) [OF idx, of form now] one_write_writeData show ?thesis
    by (metis option.distinct(1))
qed

lemma deleteShoot_present:
  assumes "p \<in> Shoot.id ` set (pending w)"
  shows "fst (deleteShoot p w) = True \<and> one_write w (snd (deleteShoot p w))"
proof -
  from findIndex_present [OF assms] obtain idx
    where idx: "findIndex (\<lambda>x. Shoot.id x = p) (pending w) = Some idx" ..
  from deleteShoot_Some(1,4) [OF idx] one_write_writeData show ?thesis
    by metis
qed


lemma updateEditedShoot_present:
  assumes "q \<in> EditedShoot.id ` set (edited w)"
  shows "fst (updateEditedShoot q form now w) \<noteq> None \<and>
         one_write w (snd (updateEditedShoot q form now w))"
proof -
  from findIndex_present [OF assms] obtain idx
    where idx: "findIndex (\<lambda>x. EditedShoot.id x = q) (edited w) = Some idx" ..
  from updateEditedShoot_Some(1,4) [OF idx, of form now] one_write_writeData show ?thesis
    by (metis option.distinct(1))
qed


lemma deleteEditedShoot_present:
  assumes "q \<in> EditedShoot.id ` set (edited w)"
  shows "fst (deleteEditedShoot q w) = True \<and> one_write w (snd (deleteEditedShoot q w))"
proof -
  from findIndex_present [OF assms] obtain idx
    where idx: "findIndex (\<lambda>x. EditedShoot.id x = q) (edited w) = Some idx" ..
  from deleteEditedShoot_Some(1,4) [OF idx] one_write_writeData show ?thesis
    by metis
qed

lemma wrote_writeData: "wrote w (writeData d (snd (readData w))) d"
  by (simp add: wrote_def writeData_def readData_def written_append split: data_file.splits)

lemma wrote_buckets:
  assumes "w' = writeData (fst (readData w')) (snd (readData w))"
  shows "wrote w w' \<lparr>shoots = pending w', editedShoots = edited w'\<rparr>"
proof -
  have "\<lparr>shoots = pending w', editedShoots = edited w'\<rparr> = fst (readData w')"
    by (simp add: pending_def edited_def)
  with wrote_writeData [of w "fst (readData w')"] assms show ?thesis
    by simp
qed

lemma updateShoot_wrote:
  assumes "findIndex (\<lambda>s. Shoot.id s = i) (pending w) = Some idx"
  shows "wrote w (snd (updateShoot i form now w))
           \<lparr>shoots = (pending w)[idx := the (fst (updateShoot i form now w))],
            editedShoots = edited w\<rparr>"
  using wrote_buckets [OF updateShoot_Some(4) [OF assms, of form now]]
    updateShoot_Some(2,3) [OF assms, of form now] by simp

lemma deleteShoot_wrote:
  assumes "findIndex (\<lambda>s. Shoot.id s = i) (pending w) = Some idx"
  shows "wrote w (snd (deleteShoot i w))
           \<lparr>shoots = splice1 idx (pending w), editedShoots = edited w\<rparr>"
  using wrote_buckets [OF deleteShoot_Some(4) [OF assms]] deleteShoot_Some(2,3) [OF assms]
  by simp

lemma moveShootToEdited_wrote:
  assumes "findIndex (\<lambda>s. Shoot.id s = i) (pending w) = Some idx"
  shows "wrote w (snd (moveShootToEdited i uuid now w))
           \<lparr>shoots = splice1 idx (pending w),
            editedShoots = edited w @ [the (fst (moveShootToEdited i uuid now w))]\<rparr>"
  using wrote_buckets [OF moveShootToEdited_Some(4) [OF assms, of uuid now]]
    moveShootToEdited_Some(2,3) [OF assms, of uuid now] by simp

lemma updateEditedShoot_wrote:
  assumes "findIndex (\<lambda>s. EditedShoot.id s = i) (edited w) = Some idx"
  shows "wrote w (snd (updateEditedShoot i form now w))
           \<lparr>shoots = pending w,
            editedShoots = (edited w)[idx := the (fst (updateEditedShoot i form now w))]\<rparr>"
  using wrote_buckets [OF updateEditedShoot_Some(4) [OF assms, of form now]]
    updateEditedShoot_Some(2,3) [OF assms, of form now] by simp

lemma deleteEditedShoot_wrote:
  assumes "findIndex (\<lambda>s. EditedShoot.id s = i) (edited w) = Some idx"
  shows "wrote w (snd (deleteEditedShoot i w))
           \<lparr>shoots = pending w, editedShoots = splice1 idx (edited w)\<rparr>"
  using wrote_buckets [OF deleteEditedShoot_Some(4) [OF assms]]
    deleteEditedShoot_Some(2,3) [OF assms] by simp

lemma moveEditedShootBack_wrote:
  assumes "findIndex (\<lambda>s. EditedShoot.id s = i) (edited w) = Some idx"
  shows "wrote w (snd (moveEditedShootBack i uuid now w))
           \<lparr>shoots = pending w @ [the (fst (moveEditedShootBack i uuid now w))],
            editedShoots = splice1 idx (edited w)\<rparr>"
  using wrote_buckets [OF moveEditedShootBack_Some(4) [OF assms, of uuid now]]
    moveEditedShootBack_Some(2,3) [OF assms, of uuid now] by simp

lemma createShoot_wrote:
  "wrote w (snd (createShoot form uuid now w))
     \<lparr>shoots = pending w @ [fst (createShoot form uuid now w)], editedShoots = edited w\<rparr>"
  using wrote_buckets [OF createShoot_world(2) [of form uuid now w]]
    pending_createShoot [of form uuid now w] createShoot_world(1) [of form uuid now w]
  by simp

lemma pending_present_writes:
  assumes "i \<in> Shoot.id ` set (pending w)"
  shows "\<exists>idx. findIndex (\<lambda>s. Shoot.id s = i) (pending w) = Some idx
       \<and> fst (updateShoot i form now w)
           = Some ((pending w ! idx)
                    \<lparr>Shoot.modelName := ShootFormData.modelName form,
                     Shoot.salonName := ShootFormData.salonName form,
                     Shoot.date := ShootFormData.date form,
                     Shoot.price := ShootFormData.price form,
                     Shoot.updatedAt := now\<rparr>)
       \<and> wrote w (snd (updateShoot i form now w))
             \<lparr>shoots = (pending w)[idx := (pending w ! idx)
                    \<lparr>Shoot.modelName := ShootFormData.modelName form,
                     Shoot.salonName := ShootFormData.salonName form,
                     Shoot.date := ShootFormData.date form,
                     Shoot.price := ShootFormData.price form,
                     Shoot.updatedAt := now\<rparr>],
              editedShoots = edited w\<rparr>
       \<and> fst (deleteShoot i w) = True
       \<and> wrote w (snd (deleteShoot i w))
             \<lparr>shoots = splice1 idx (pending w), editedShoots = edited w\<rparr>
       \<and> fst (moveShootToEdited i uuid now w)
           = Some \<lparr>EditedShoot.id = uuid,
                   originalShootId = Shoot.id (pending w ! idx),
                   modelName = Shoot.modelName (pending w ! idx),
                   salonName = Shoot.salonName (pending w ! idx),
                   date = Shoot.date (pending w ! idx),
                   price = Shoot.price (pending w ! idx),
                   createdAt = Shoot.createdAt (pending w ! idx),
                   editedAt = now\<rparr>
       \<and> wrote w (snd (moveShootToEdited i uuid now w))
             \<lparr>shoots = splice1 idx (pending w),
              editedShoots = edited w @
                [\<lparr>EditedShoot.id = uuid,
                  originalShootId = Shoot.id (pending w ! idx),
                  modelName = Shoot.modelName (pending w ! idx),
                  salonName = Shoot.salonName (pending w ! idx),
                  date = Shoot.date (pending w ! idx),
                  price = Shoot.price (pending w ! idx),
                  createdAt = Shoot.createdAt (pending w ! idx),
                  editedAt = now\<rparr>]\<rparr>"
proof -
  from findIndex_present [OF assms] obtain idx
    where idx: "findIndex (\<lambda>x. Shoot.id x = i) (pending w) = Some idx" ..
  show ?thesis
    using idx updateShoot_Some(1) [OF idx, of form now] updateShoot_wrote [OF idx, of form now]
      deleteShoot_Some(1) [OF idx] deleteShoot_wrote [OF idx]
      moveShootToEdited_Some(1) [OF idx, of uuid now]
      moveShootToEdited_wrote [OF idx, of uuid now]
    by (intro exI [of _ idx]) simp
qed

lemma edited_present_writes:
  assumes "j \<in> EditedShoot.id ` set (edited w)"
  shows "\<exists>idx. findIndex (\<lambda>s. EditedShoot.id s = j) (edited w) = Some idx
       \<and> fst (updateEditedShoot j form now w)
           = Some ((edited w ! idx)
                    \<lparr>EditedShoot.modelName := ShootFormData.modelName form,
                     EditedShoot.salonName := ShootFormData.salonName form,
                     EditedShoot.date := ShootFormData.date form,
                     EditedShoot.price := ShootFormData.price form,
                     EditedShoot.editedAt := now\<rparr>)
       \<and> wrote w (snd (updateEditedShoot j form now w))
             \<lparr>shoots = pending w,
              editedShoots = (edited w)[idx := (edited w ! idx)
                    \<lparr>EditedShoot.modelName := ShootFormData.modelName form,
                     EditedShoot.salonName := ShootFormData.salonName form,
                     EditedShoot.date := ShootFormData.date form,
                     EditedShoot.price := ShootFormData.price form,
                     EditedShoot.editedAt := now\<rparr>]\<rparr>
       \<and> fst (deleteEditedShoot j w) = True
       \<and> wrote w (snd (deleteEditedShoot j w))
             \<lparr>shoots = pending w, editedShoots = splice1 idx (edited w)\<rparr>
       \<and> fst (moveEditedShootBack j uuid now w)
           = Some \<lparr>Shoot.id = uuid,
                   modelName = EditedShoot.modelName (edited w ! idx),
                   salonName = EditedShoot.salonName (edited w ! idx),
                   date = EditedShoot.date (edited w ! idx),
                   price = EditedShoot.price (edited w ! idx),
                   createdAt = EditedShoot.createdAt (edited w ! idx),
                   updatedAt = now\<rparr>
       \<and> wrote w (snd (moveEditedShootBack j uuid now w))
             \<lparr>shoots = pending w @
                [\<lparr>Shoot.id = uuid,
                  modelName = EditedShoot.modelName (edited w ! idx),
                  salonName = EditedShoot.salonName (edited w ! idx),
                  date = EditedShoot.date (edited w ! idx),
                  price = EditedShoot.price (edited w ! idx),
                  createdAt = EditedShoot.createdAt (edited w ! idx),
                  updatedAt = now\<rparr>],
              editedShoots = splice1 idx (edited w)\<rparr>"
proof -
  from findIndex_present [OF assms] obtain idx
    where idx: "findIndex (\<lambda>x. EditedShoot.id x = j) (edited w) = Some idx" ..
  show ?thesis
    using idx updateEditedShoot_Some(1) [OF idx, of form now]
      updateEditedShoot_wrote [OF idx, of form now]
      deleteEditedShoot_Some(1) [OF idx] deleteEditedShoot_wrote [OF idx]
      moveEditedShootBack_Some(1) [OF idx, of uuid now]
      moveEditedShootBack_wrote [OF idx, of uuid now]
    by (intro exI [of _ idx]) simp
qed

lemma pending_absent_no_write:
  assumes "i \<notin> Shoot.id ` set (pending w)"
  shows "fst (updateShoot i form now w) = None
       \<and> no_write w (snd (updateShoot i form now w))
       \<and> fst (deleteShoot i w) = False
       \<and> no_write w (snd (deleteShoot i w))
       \<and> fst (moveShootToEdited i uuid now w) = None
       \<and> no_write w (snd (moveShootToEdited i uuid now w))"
  using updateShoot_absent [OF assms] deleteShoot_absent [OF assms]
    moveShootToEdited_absent [OF assms]
  by blast

lemma edited_absent_no_write:
  assumes "j \<notin> EditedShoot.id ` set (edited w)"
  shows "fst (updateEditedShoot j form now w) = None
       \<and> no_write w (snd (updateEditedShoot j form now w))
       \<and> fst (deleteEditedShoot j w) = False
       \<and> no_write w (snd (deleteEditedShoot j w))
       \<and> fst (moveEditedShootBack j uuid now w) = None
       \<and> no_write w (snd (moveEditedShootBack j uuid now w))"
  using updateEditedShoot_absent [OF assms] deleteEditedShoot_absent [OF assms]
    moveEditedShootBack_absent [OF assms]
  by blast

section \<open>Not found, or exactly one write\<close>

text \<open>
  Claim C4. For every store and every identifier: when the identifier is absent from the
  targeted bucket, each of \<open>updateShoot\<close>, \<open>deleteShoot\<close>, \<open>moveShootToEdited\<close>,
  \<open>updateEditedShoot\<close>, \<open>deleteEditedShoot\<close> and \<open>moveEditedShootBack\<close> reports not-found
  (\<open>null\<close> or \<open>false\<close>), performs no write and leaves the file as it was; when it is
  present, each of them succeeds and performs exactly one write, of the whole next
  document (both buckets, with the one record replaced, removed or moved), which is then
  the content of the file. \<open>createShoot\<close> always performs exactly one write, of the document
  with the new record appended to the Pending bucket.
\<close>

theorem not_found_writes_nothing_success_writes_next_document:
  "(i \<notin> Shoot.id ` set (pending w) \<longrightarrow>
      fst (updateShoot i form now w) = None
       \<and> no_write w (snd (updateShoot i form now w))
       \<and> fst (deleteShoot i w) = False
       \<and> no_write w (snd (deleteShoot i w))
       \<and> fst (moveShootToEdited i uuid now w) = None
       \<and> no_write w (snd (moveShootToEdited i uuid now w)))
   \<and> (i \<in> Shoot.id ` set (pending w) \<longrightarrow>
      (\<exists>idx. findIndex (\<lambda>s. Shoot.id s = i) (pending w) = Some idx
       \<and> fst (updateShoot i form now w)
           = Some ((pending w ! idx)
                    \<lparr>Shoot.modelName := ShootFormData.modelName form,
                     Shoot.salonName := ShootFormData.salonName form,
                     Shoot.date := ShootFormData.date form,
                     Shoot.price := ShootFormData.price form,
                     Shoot.updatedAt := now\<rparr>)
       \<and> wrote w (snd (updateShoot i form now w))
             \<lparr>shoots = (pending w)[idx := (pending w ! idx)
                    \<lparr>Shoot.modelName := ShootFormData.modelName form,
                     Shoot.salonName := ShootFormData.salonName form,
                     Shoot.date := ShootFormData.date form,
                     Shoot.price := ShootFormData.price form,
                     Shoot.updatedAt := now\<rparr>],
              editedShoots = edited w\<rparr>
       \<and> fst (deleteShoot i w) = True
       \<and> wrote w (snd (deleteShoot i w))
             \<lparr>shoots = splice1 idx (pending w), editedShoots = edited w\<rparr>
       \<and> fst (moveShootToEdited i uuid now w)
           = Some \<lparr>EditedShoot.id = uuid,
                   originalShootId = Shoot.id (pending w ! idx),
                   modelName = Shoot.modelName (pending w ! idx),
                   salonName = Shoot.salonName (pending w ! idx),
                   date = Shoot.date (pending w ! idx),
                   price = Shoot.price (pending w ! idx),
                   createdAt = Shoot.createdAt (pending w ! idx),
                   editedAt = now\<rparr>
       \<and> wrote w (snd (moveShootToEdited i uuid now w))
             \<lparr>shoots = splice1 idx (pending w),
              editedShoots = edited w @
                [\<lparr>EditedShoot.id = uuid,
                  originalShootId = Shoot.id (pending w ! idx),
                  modelName = Shoot.modelName (pending w ! idx),
                  salonName = Shoot.salonName (pending w ! idx),
                  date = Shoot.date (pending w ! idx),
                  price = Shoot.price (pending w ! idx),
                  createdAt = Shoot.createdAt (pending w ! idx),
                  editedAt = now\<rparr>]\<rparr>))
   \<and> (j \<notin> EditedShoot.id ` set (edited w) \<longrightarrow>
      fst (updateEditedShoot j form now w) = None
       \<and> no_write w (snd (updateEditedShoot j form now w))
       \<and> fst (deleteEditedShoot j w) = False
       \<and> no_write w (snd (deleteEditedShoot j w))
       \<and> fst (moveEditedShootBack j uuid now w) = None
       \<and> no_write w (snd (moveEditedShootBack j uuid now w)))
   \<and> (j \<in> EditedShoot.id ` set (edited w) \<longrightarrow>
      (\<exists>idx. findIndex (\<lambda>s. EditedShoot.id s = j) (edited w) = Some idx
       \<and> fst (updateEditedShoot j form now w)
           = Some ((edited w ! idx)
                    \<lparr>EditedShoot.modelName := ShootFormData.modelName form,
                     EditedShoot.salonName := ShootFormData.salonName form,
                     EditedShoot.date := ShootFormData.date form,
                     EditedShoot.price := ShootFormData.price form,
                     EditedShoot.editedAt := now\<rparr>)
       \<and> wrote w (snd (updateEditedShoot j form now w))
             \<lparr>shoots = pending w,
              editedShoots = (edited w)[idx := (edited w ! idx)
                    \<lparr>EditedShoot.modelName := ShootFormData.modelName form,
                     EditedShoot.salonName := ShootFormData.salonName form,
                     EditedShoot.date := ShootFormData.date form,
                     EditedShoot.price := ShootFormData.price form,
                     EditedShoot.editedAt := now\<rparr>]\<rparr>
       \<and> fst (deleteEditedShoot j w) = True
       \<and> wrote w (snd (deleteEditedShoot j w))
             \<lparr>shoots = pending w, editedShoots = splice1 idx (edited w)\<rparr>
       \<and> fst (moveEditedShootBack j uuid now w)
           = Some \<lparr>Shoot.id = uuid,
                   modelName = EditedShoot.modelName (edited w ! idx),
                   salonName = EditedShoot.salonName (edited w ! idx),
                   date = EditedShoot.date (edited w ! idx),
                   price = EditedShoot.price (edited w ! idx),
                   createdAt = EditedShoot.createdAt (edited w ! idx),
                   updatedAt = now\<rparr>
       \<and> wrote w (snd (moveEditedShootBack j uuid now w))
             \<lparr>shoots = pending w @
                [\<lparr>Shoot.id = uuid,
                  modelName = EditedShoot.modelName (edited w ! idx),
                  salonName = EditedShoot.salonName (edited w ! idx),
                  date = EditedShoot.date (edited w ! idx),
                  price = EditedShoot.price (edited w ! idx),
                  createdAt = EditedShoot.createdAt (edited w ! idx),
                  updatedAt = now\<rparr>],
              editedShoots = splice1 idx (edited w)\<rparr>))
   \<and> wrote w (snd (createShoot form uuid now w))
         \<lparr>shoots = pending w @ [fst (createShoot form uuid now w)], editedShoots = edited w\<rparr>"
  using pending_absent_no_write [of i w form now uuid]
    pending_present_writes [of i w form now uuid]
    edited_absent_no_write [of j w form now uuid]
    edited_present_writes [of j w form now uuid]
    createShoot_wrote [of w form uuid now]
  by blast

theorem not_found_writes_nothing_success_writes_next_document_witness:
  "''zz'' \<notin> Shoot.id ` set (pending w0) \<and> ''zz'' \<notin> EditedShoot.id ` set (edited w0)
   \<and> fst (updateShoot ''zz'' bea ''t'' w0) = None
   \<and> no_write w0 (snd (updateShoot ''zz'' bea ''t'' w0))
   \<and> fst (deleteShoot ''zz'' w0) = False
   \<and> no_write w0 (snd (deleteShoot ''zz'' w0))
   \<and> fst (moveShootToEdited ''zz'' ''u3'' ''t'' w0) = None
   \<and> no_write w0 (snd (moveShootToEdited ''zz'' ''u3'' ''t'' w0))
   \<and> fst (updateEditedShoot ''zz'' bea ''t'' w0) = None
   \<and> no_write w0 (snd (updateEditedShoot ''zz'' bea ''t'' w0))
   \<and> fst (deleteEditedShoot ''zz'' w0) = False
   \<and> no_write w0 (snd (deleteEditedShoot ''zz'' w0))
   \<and> fst (moveEditedShootBack ''zz'' ''u3'' ''t'' w0) = None
   \<and> no_write w0 (snd (moveEditedShootBack ''zz'' ''u3'' ''t'' w0))
   \<and> wrote w0 (snd (createShoot ava ''u1'' ''2024-03-01T10:00:00.000Z'' w0))
         \<lparr>shoots = [shoot1], editedShoots = []\<rparr>
   \<and> ''u1'' \<in> Shoot.id ` set (pending w2) \<and> ''u2'' \<in> EditedShoot.id ` set (edited w2)
   \<and> fst (deleteShoot ''u1'' w2) = True
   \<and> wrote w2 (snd (deleteShoot ''u1'' w2)) \<lparr>shoots = [], editedShoots = [edited2]\<rparr>
   \<and> wrote w2 (snd (moveShootToEdited ''u1'' ''u3'' ''2024-03-02T09:00:00.000Z'' w2))
         \<lparr>shoots = [],
          editedShoots =
            [edited2,
             \<lparr>EditedShoot.id = ''u3'', originalShootId = ''u1'', modelName = ''Ava'',
              salonName = ''Luxe'', date = ''2024-03-01'', price = 150,
              createdAt = ''2024-03-01T10:00:00.000Z'',
              editedAt = ''2024-03-02T09:00:00.000Z''\<rparr>]\<rparr>
   \<and> fst (deleteEditedShoot ''u2'' w2) = True
   \<and> wrote w2 (snd (deleteEditedShoot ''u2'' w2)) \<lparr>shoots = [shoot1], editedShoots = []\<rparr>
   \<and> wrote w2 (snd (moveEditedShootBack ''u2'' ''u3'' ''2024-03-02T09:00:00.000Z'' w2))
         \<lparr>shoots =
            [shoot1,
             \<lparr>Shoot.id = ''u3'', modelName = ''Bea'', salonName = ''Glow'',
              date = ''2024-02-10'', price = 80,
              createdAt = ''2024-02-10T08:00:00.000Z'',
              updatedAt = ''2024-03-02T09:00:00.000Z''\<rparr>],
          editedShoots = []\<rparr>"
proof -
  have a: "''zz'' \<notin> Shoot.id ` set (pending w0)" "''zz'' \<notin> EditedShoot.id ` set (edited w0)"
    by (simp_all add: pending_w0 edited_w0)
  note t0 = not_found_writes_nothing_success_writes_next_document
    [where i = "''zz''" and j = "''zz''" and w = w0 and form = bea and now = "''t''"
      and uuid = "''u3''"]
  from t0 a have n: "fst (updateShoot ''zz'' bea ''t'' w0) = None
   \<and> no_write w0 (snd (updateShoot ''zz'' bea ''t'' w0))
   \<and> fst (deleteShoot ''zz'' w0) = False
   \<and> no_write w0 (snd (deleteShoot ''zz'' w0))
   \<and> fst (moveShootToEdited ''zz'' ''u3'' ''t'' w0) = None
   \<and> no_write w0 (snd (moveShootToEdited ''zz'' ''u3'' ''t'' w0))
   \<and> fst (updateEditedShoot ''zz'' bea ''t'' w0) = None
   \<and> no_write w0 (snd (updateEditedShoot ''zz'' bea ''t'' w0))
   \<and> fst (deleteEditedShoot ''zz'' w0) = False
   \<and> no_write w0 (snd (deleteEditedShoot ''zz'' w0))
   \<and> fst (moveEditedShootBack ''zz'' ''u3'' ''t'' w0) = None
   \<and> no_write w0 (snd (moveEditedShootBack ''zz'' ''u3'' ''t'' w0))"
    by blast
  note t1 = not_found_writes_nothing_success_writes_next_document
    [where i = "''zz''" and j = "''zz''" and w = w0 and form = ava
      and now = "''2024-03-01T10:00:00.000Z''" and uuid = "''u1''"]
  from t1 have c: "wrote w0 (snd (createShoot ava ''u1'' ''2024-03-01T10:00:00.000Z'' w0))
         \<lparr>shoots = [shoot1], editedShoots = []\<rparr>"
    by (simp add: pending_w0 edited_w0 fst_createShoot shoot1_def ava_def)
  have p: "''u1'' \<in> Shoot.id ` set (pending w2)" "''u2'' \<in> EditedShoot.id ` set (edited w2)"
    by (simp_all add: pending_w2 edited_w2 shoot1_def edited2_def)
  have f: "findIndex (\<lambda>s. Shoot.id s = ''u1'') (pending w2) = Some 0"
    "findIndex (\<lambda>s. EditedShoot.id s = ''u2'') (edited w2) = Some 0"
    by (simp_all add: pending_w2 edited_w2 shoot1_def edited2_def)
  note t2 = not_found_writes_nothing_success_writes_next_document
    [where i = "''u1''" and j = "''u2''" and w = w2 and form = bea
      and now = "''2024-03-02T09:00:00.000Z''" and uuid = "''u3''"]
  note tp = t2 [THEN conjunct2, THEN conjunct1, THEN mp, OF p(1)]
  note te = t2 [THEN conjunct2, THEN conjunct2, THEN conjunct2, THEN conjunct1, THEN mp, OF p(2)]
  from tp obtain ix where ix: "findIndex (\<lambda>s. Shoot.id s = ''u1'') (pending w2) = Some ix"
    and d1: "fst (deleteShoot ''u1'' w2) = True"
    and d2: "wrote w2 (snd (deleteShoot ''u1'' w2))
      \<lparr>shoots = splice1 ix (pending w2), editedShoots = edited w2\<rparr>"
    and d3: "wrote w2 (snd (moveShootToEdited ''u1'' ''u3'' ''2024-03-02T09:00:00.000Z'' w2))
             \<lparr>shoots = splice1 ix (pending w2),
              editedShoots = edited w2 @
                [\<lparr>EditedShoot.id = ''u3'',
                  originalShootId = Shoot.id (pending w2 ! ix),
                  modelName = Shoot.modelName (pending w2 ! ix),
                  salonName = Shoot.salonName (pending w2 ! ix),
                  date = Shoot.date (pending w2 ! ix),
                  price = Shoot.price (pending w2 ! ix),
                  createdAt = Shoot.createdAt (pending w2 ! ix),
                  editedAt = ''2024-03-02T09:00:00.000Z''\<rparr>]\<rparr>"
    by (elim exE conjE)
  from ix f(1) have ix0: "ix = 0"
    by simp
  from te obtain jx where jx: "findIndex (\<lambda>s. EditedShoot.id s = ''u2'') (edited w2) = Some jx"
    and e1: "fst (deleteEditedShoot ''u2'' w2) = True"
    and e2: "wrote w2 (snd (deleteEditedShoot ''u2'' w2))
      \<lparr>shoots = pending w2, editedShoots = splice1 jx (edited w2)\<rparr>"
    and e3: "wrote w2 (snd (moveEditedShootBack ''u2'' ''u3'' ''2024-03-02T09:00:00.000Z'' w2))
             \<lparr>shoots = pending w2 @
                [\<lparr>Shoot.id = ''u3'',
                  modelName = EditedShoot.modelName (edited w2 ! jx),
                  salonName = EditedShoot.salonName (edited w2 ! jx),
                  date = EditedShoot.date (edited w2 ! jx),
                  price = EditedShoot.price (edited w2 ! jx),
                  createdAt = EditedShoot.createdAt (edited w2 ! jx),
                  updatedAt = ''2024-03-02T09:00:00.000Z''\<rparr>],
              editedShoots = splice1 jx (edited w2)\<rparr>"
    by (elim exE conjE)
  from jx f(2) have jx0: "jx = 0"
    by simp
  have v: "Shoot.id shoot1 = ''u1''" "Shoot.modelName shoot1 = ''Ava''"
    "Shoot.salonName shoot1 = ''Luxe''" "Shoot.date shoot1 = ''2024-03-01''"
    "Shoot.price shoot1 = 150" "Shoot.createdAt shoot1 = ''2024-03-01T10:00:00.000Z''"
    "EditedShoot.modelName edited2 = ''Bea''" "EditedShoot.salonName edited2 = ''Glow''"
    "EditedShoot.date edited2 = ''2024-02-10''" "EditedShoot.price edited2 = 80"
    "EditedShoot.createdAt edited2 = ''2024-02-10T08:00:00.000Z''"
    by (simp_all add: shoot1_def edited2_def)
  have d: "fst (deleteShoot ''u1'' w2) = True
   \<and> wrote w2 (snd (deleteShoot ''u1'' w2)) \<lparr>shoots = [], editedShoots = [edited2]\<rparr>
   \<and> wrote w2 (snd (moveShootToEdited ''u1'' ''u3'' ''2024-03-02T09:00:00.000Z'' w2))
         \<lparr>shoots = [],
          editedShoots =
            [edited2,
             \<lparr>EditedShoot.id = ''u3'', originalShootId = ''u1'', modelName = ''Ava'',
              salonName = ''Luxe'', date = ''2024-03-01'', price = 150,
              createdAt = ''2024-03-01T10:00:00.000Z'',
              editedAt = ''2024-03-02T09:00:00.000Z''\<rparr>]\<rparr>
   \<and> fst (deleteEditedShoot ''u2'' w2) = True
   \<and> wrote w2 (snd (deleteEditedShoot ''u2'' w2)) \<lparr>shoots = [shoot1], editedShoots = []\<rparr>
   \<and> wrote w2 (snd (moveEditedShootBack ''u2'' ''u3'' ''2024-03-02T09:00:00.000Z'' w2))
         \<lparr>shoots =
            [shoot1,
             \<lparr>Shoot.id = ''u3'', modelName = ''Bea'', salonName = ''Glow'',
              date = ''2024-02-10'', price = 80,
              createdAt = ''2024-02-10T08:00:00.000Z'',
              updatedAt = ''2024-03-02T09:00:00.000Z''\<rparr>],
          editedShoots = []\<rparr>"
    using d1 d2 d3 e1 e2 e3 unfolding ix0 jx0 pending_w2 edited_w2
    by (simp add: splice1_def v)
  from a n c p d show ?thesis
    by blast
qed

lemma getShoots_no_write: "no_write w (snd (getShoots w))"
  by (simp add: getShoots_def split_beta no_write_readData)

lemma getShootById_no_write: "no_write w (snd (getShootById i w))"
  by (simp add: getShootById_def split_beta no_write_readData)

lemma getEditedShoots_no_write: "no_write w (snd (getEditedShoots w))"
  by (simp add: getEditedShoots_def split_beta no_write_readData)

lemma getEditedShootById_no_write: "no_write w (snd (getEditedShootById i w))"
  by (simp add: getEditedShootById_def split_beta no_write_readData)

lemma updateShoot_frame:
  assumes "distinct (map Shoot.id (pending w))" and "s \<in> set (pending w)"
  shows "\<exists>idx r. idx < length (pending w) \<and> pending w ! idx = s
           \<and> fst (updateShoot (Shoot.id s) form now w) = Some r
           \<and> r = s\<lparr>Shoot.modelName := ShootFormData.modelName form,
                    Shoot.salonName := ShootFormData.salonName form,
                    Shoot.date := ShootFormData.date form,
                    Shoot.price := ShootFormData.price form,
                    Shoot.updatedAt := now\<rparr>
           \<and> pending (snd (updateShoot (Shoot.id s) form now w)) = (pending w)[idx := r]
           \<and> edited (snd (updateShoot (Shoot.id s) form now w)) = edited w"
proof -
  from findIndex_distinct_unique [OF assms]
  obtain idx where idx: "findIndex (\<lambda>x. Shoot.id x = Shoot.id s) (pending w) = Some idx"
    and s: "pending w ! idx = s"
    by blast
  from findIndex_SomeD [OF idx] have "idx < length (pending w)"
    by simp
  with updateShoot_Some(1,2,3) [OF idx, of form now] s show ?thesis
    by (intro exI [of _ idx]) simp
qed

lemma updateEditedShoot_frame:
  assumes "distinct (map EditedShoot.id (edited w))" and "e \<in> set (edited w)"
  shows "\<exists>idx r. idx < length (edited w) \<and> edited w ! idx = e
           \<and> fst (updateEditedShoot (EditedShoot.id e) form now w) = Some r
           \<and> r = e\<lparr>EditedShoot.modelName := ShootFormData.modelName form,
                    EditedShoot.salonName := ShootFormData.salonName form,
                    EditedShoot.date := ShootFormData.date form,
                    EditedShoot.price := ShootFormData.price form,
                    EditedShoot.editedAt := now\<rparr>
           \<and> edited (snd (updateEditedShoot (EditedShoot.id e) form now w)) = (edited w)[idx := r]
           \<and> pending (snd (updateEditedShoot (EditedShoot.id e) form now w)) = pending w"
proof -
  from findIndex_distinct_unique [OF assms]
  obtain idx where idx: "findIndex (\<lambda>x. EditedShoot.id x = EditedShoot.id e) (edited w) = Some idx"
    and e: "edited w ! idx = e"
    by blast
  from findIndex_SomeD [OF idx] have "idx < length (edited w)"
    by simp
  with updateEditedShoot_Some(1,2,3) [OF idx, of form now] e show ?thesis
    by (intro exI [of _ idx]) simp
qed

section \<open>What an update changes\<close>

text \<open>
  Claim C7, as stated, asks that an update refresh \<open>updatedAt\<close> to a later timestamp than
  before. The code stores the clock reading of the call: an update that runs in the same
  millisecond as the creation of the record leaves \<open>updatedAt\<close> as it was, not later.
\<close>

theorem updatedAt_not_later_counterexample:
  "shoot1 \<in> set (pending w1)
   \<and> fst (updateShoot ''u1'' bea ''2024-03-01T10:00:00.000Z'' w1) \<noteq> None
   \<and> \<not> (Shoot.updatedAt shoot1
          < Shoot.updatedAt (the (fst (updateShoot ''u1'' bea ''2024-03-01T10:00:00.000Z'' w1))))"
proof -
  have "findIndex (\<lambda>s. Shoot.id s = ''u1'') (pending w1) = Some 0"
    by (simp add: pending_w1 shoot1_def)
  from updateShoot_Some(1) [OF this, of bea "''2024-03-01T10:00:00.000Z''"] show ?thesis
    by (simp add: pending_w1 shoot1_def)
qed

text \<open>
  Claim C7, amended. For every store: when the identifiers of the Pending bucket are
  distinct, for each of its Shoots \<open>s\<close> the call \<open>updateShoot\<close> returns \<open>s\<close> with the four form
  fields replaced and \<open>updatedAt\<close> set to the clock reading of the call; when the
  identifiers of the Edited bucket are distinct, for each of its EditedShoots \<open>e\<close> the call
  \<open>updateEditedShoot\<close> returns \<open>e\<close> with the four form fields replaced and \<open>editedAt\<close> set to
  the clock reading of the call. The timestamp is later than before exactly when that
  reading is. The identifier and \<open>createdAt\<close> (and \<open>originalShootId\<close>) stay as they were,
  the updated record takes the place of the old one, and every other record of both
  buckets is unchanged. The four read operations, on any store, write nothing and leave
  the file as it was.
\<close>

theorem update_replaces_form_fields_and_stamps_now:
  "(distinct (map Shoot.id (pending w)) \<and> s \<in> set (pending w) \<longrightarrow>
      (\<exists>idx r. idx < length (pending w) \<and> pending w ! idx = s
           \<and> fst (updateShoot (Shoot.id s) form now w) = Some r
           \<and> Shoot.modelName r = ShootFormData.modelName form
           \<and> Shoot.salonName r = ShootFormData.salonName form
           \<and> Shoot.date r = ShootFormData.date form
           \<and> Shoot.price r = ShootFormData.price form
           \<and> Shoot.updatedAt r = now
           \<and> (Shoot.updatedAt s < Shoot.updatedAt r) = (Shoot.updatedAt s < now)
           \<and> Shoot.id r = Shoot.id s
           \<and> Shoot.createdAt r = Shoot.createdAt s
           \<and> pending (snd (updateShoot (Shoot.id s) form now w)) = (pending w)[idx := r]
           \<and> edited (snd (updateShoot (Shoot.id s) form now w)) = edited w))
   \<and> (distinct (map EditedShoot.id (edited w)) \<and> e \<in> set (edited w) \<longrightarrow>
      (\<exists>idx r. idx < length (edited w) \<and> edited w ! idx = e
           \<and> fst (updateEditedShoot (EditedShoot.id e) form now w) = Some r
           \<and> EditedShoot.modelName r = ShootFormData.modelName form
           \<and> EditedShoot.salonName r = ShootFormData.salonName form
           \<and> EditedShoot.date r = ShootFormData.date form
           \<and> EditedShoot.price r = ShootFormData.price form
           \<and> EditedShoot.editedAt r = now
           \<and> (EditedShoot.editedAt e < EditedShoot.editedAt r) = (EditedShoot.editedAt e < now)
           \<and> EditedShoot.id r = EditedShoot.id e
           \<and> EditedShoot.originalShootId r = EditedShoot.originalShootId e
           \<and> EditedShoot.createdAt r = EditedShoot.createdAt e
           \<and> edited (snd (updateEditedShoot (EditedShoot.id e) form now w)) = (edited w)[idx := r]
           \<and> pending (snd (updateEditedShoot (EditedShoot.id e) form now w)) = pending w))
   \<and> no_write w (snd (getShoots w))
   \<and> no_write w (snd (getShootById i w))
   \<and> no_write w (snd (getEditedShoots w))
   \<and> no_write w (snd (getEditedShootById i w))"
proof (intro conjI impI)
  assume "distinct (map Shoot.id (pending w)) \<and> s \<in> set (pending w)"
  then have d: "distinct (map Shoot.id (pending w))" and m: "s \<in> set (pending w)"
    by simp_all
  from updateShoot_frame [OF d m, of form now]
  obtain idx r where "idx < length (pending w)" "pending w ! idx = s"
    "fst (updateShoot (Shoot.id s) form now w) = Some r"
    "r = s\<lparr>Shoot.modelName := ShootFormData.modelName form,
           Shoot.salonName := ShootFormData.salonName form,
           Shoot.date := ShootFormData.date form,
           Shoot.price := ShootFormData.price form,
           Shoot.updatedAt := now\<rparr>"
    "pending (snd (updateShoot (Shoot.id s) form now w)) = (pending w)[idx := r]"
    "edited (snd (updateShoot (Shoot.id s) form now w)) = edited w"
    by blast
  then show "\<exists>idx r. idx < length (pending w) \<and> pending w ! idx = s
           \<and> fst (updateShoot (Shoot.id s) form now w) = Some r
           \<and> Shoot.modelName r = ShootFormData.modelName form
           \<and> Shoot.salonName r = ShootFormData.salonName form
           \<and> Shoot.date r = ShootFormData.date form
           \<and> Shoot.price r = ShootFormData.price form
           \<and> Shoot.updatedAt r = now
           \<and> (Shoot.updatedAt s < Shoot.updatedAt r) = (Shoot.updatedAt s < now)
           \<and> Shoot.id r = Shoot.id s
           \<and> Shoot.createdAt r = Shoot.createdAt s
           \<and> pending (snd (updateShoot (Shoot.id s) form now w)) = (pending w)[idx := r]
           \<and> edited (snd (updateShoot (Shoot.id s) form now w)) = edited w"
    by (intro exI [of _ idx] exI [of _ r]) simp
next
  assume "distinct (map EditedShoot.id (edited w)) \<and> e \<in> set (edited w)"
  then have d: "distinct (map EditedShoot.id (edited w))" and m: "e \<in> set (edited w)"
    by simp_all
  from updateEditedShoot_frame [OF d m, of form now]
  obtain idx r where "idx < length (edited w)" "edited w ! idx = e"
    "fst (updateEditedShoot (EditedShoot.id e) form now w) = Some r"
    "r = e\<lparr>EditedShoot.modelName := ShootFormData.modelName form,
           EditedShoot.salonName := ShootFormData.salonName form,
           EditedShoot.date := ShootFormData.date form,
           EditedShoot.price := ShootFormData.price form,
           EditedShoot.editedAt := now\<rparr>"
    "edited (snd (updateEditedShoot (EditedShoot.id e) form now w)) = (edited w)[idx := r]"
    "pending (snd (updateEditedShoot (EditedShoot.id e) form now w)) = pending w"
    by blast
  then show "\<exists>idx r. idx < length (edited w) \<and> edited w ! idx = e
           \<and> fst (updateEditedShoot (EditedShoot.id e) form now w) = Some r
           \<and> EditedShoot.modelName r = ShootFormData.modelName form
           \<and> EditedShoot.salonName r = ShootFormData.salonName form
           \<and> EditedShoot.date r = ShootFormData.date form
           \<and> EditedShoot.price r = ShootFormData.price form
           \<and> EditedShoot.editedAt r = now
           \<and> (EditedShoot.editedAt e < EditedShoot.editedAt r) = (EditedShoot.editedAt e < now)
           \<and> EditedShoot.id r = EditedShoot.id e
           \<and> EditedShoot.originalShootId r = EditedShoot.originalShootId e
           \<and> EditedShoot.createdAt r = EditedShoot.createdAt e
           \<and> edited (snd (updateEditedShoot (EditedShoot.id e) form now w)) = (edited w)[idx := r]
           \<and> pending (snd (updateEditedShoot (EditedShoot.id e) form now w)) = pending w"
    by (intro exI [of _ idx] exI [of _ r]) simp
qed (rule getShoots_no_write getShootById_no_write getEditedShoots_no_write
    getEditedShootById_no_write)+

theorem update_replaces_form_fields_and_stamps_now_witness:
  "distinct (map Shoot.id (pending w1)) \<and> shoot1 \<in> set (pending w1)
   \<and> edited w1 = []
   \<and> (\<exists>r. fst (updateShoot ''u1'' bea ''2024-03-05T10:00:00.000Z'' w1) = Some r
         \<and> Shoot.modelName r = ''Bea''
         \<and> Shoot.salonName r = ''Glow''
         \<and> Shoot.date r = ''2024-04-01''
         \<and> Shoot.price r = 90
         \<and> Shoot.updatedAt r = ''2024-03-05T10:00:00.000Z''
         \<and> Shoot.updatedAt shoot1 < Shoot.updatedAt r
         \<and> Shoot.id r = ''u1''
         \<and> Shoot.createdAt r = ''2024-03-01T10:00:00.000Z''
         \<and> pending (snd (updateShoot ''u1'' bea ''2024-03-05T10:00:00.000Z'' w1)) = [r]
         \<and> edited (snd (updateShoot ''u1'' bea ''2024-03-05T10:00:00.000Z'' w1)) = [])
   \<and> distinct (map EditedShoot.id (edited w2)) \<and> edited2 \<in> set (edited w2)
   \<and> (\<exists>r. fst (updateEditedShoot ''u2'' bea ''2024-03-05T10:00:00.000Z'' w2) = Some r
         \<and> EditedShoot.modelName r = ''Bea''
         \<and> EditedShoot.price r = 90
         \<and> EditedShoot.editedAt r = ''2024-03-05T10:00:00.000Z''
         \<and> EditedShoot.id r = ''u2''
         \<and> EditedShoot.originalShootId r = ''u0''
         \<and> EditedShoot.createdAt r = ''2024-02-10T08:00:00.000Z''
         \<and> edited (snd (updateEditedShoot ''u2'' bea ''2024-03-05T10:00:00.000Z'' w2)) = [r]
         \<and> pending (snd (updateEditedShoot ''u2'' bea ''2024-03-05T10:00:00.000Z'' w2))
             = [shoot1])
   \<and> no_write w0 (snd (getShoots w0))
   \<and> no_write w1 (snd (getShootById ''u1'' w1))"
proof -
  have h1: "distinct (map Shoot.id (pending w1)) \<and> shoot1 \<in> set (pending w1)"
    by (simp add: pending_w1)
  have h2: "distinct (map EditedShoot.id (edited w2)) \<and> edited2 \<in> set (edited w2)"
    by (simp add: edited_w2)
  have i: "Shoot.id shoot1 = ''u1''" "EditedShoot.id edited2 = ''u2''"
    "Shoot.createdAt shoot1 = ''2024-03-01T10:00:00.000Z''"
    "Shoot.updatedAt shoot1 = ''2024-03-01T10:00:00.000Z''"
    "EditedShoot.createdAt edited2 = ''2024-02-10T08:00:00.000Z''"
    "EditedShoot.originalShootId edited2 = ''u0''"
    "ShootFormData.modelName bea = ''Bea''" "ShootFormData.salonName bea = ''Glow''"
    "ShootFormData.date bea = ''2024-04-01''" "ShootFormData.price bea = 90"
    by (simp_all add: shoot1_def edited2_def bea_def)
  have l: "''2024-03-01T10:00:00.000Z'' < ''2024-03-05T10:00:00.000Z''"
    by simp
  note t1 = update_replaces_form_fields_and_stamps_now
    [where w = w1 and s = shoot1 and form = bea and now = "''2024-03-05T10:00:00.000Z''"
      and i = "''u1''"]
  note p1 = t1 [THEN conjunct1, THEN mp, OF h1, unfolded i pending_w1 edited_w1]
  from p1 obtain idx r where "idx < length [shoot1]"
    and r: "fst (updateShoot ''u1'' bea ''2024-03-05T10:00:00.000Z'' w1) = Some r"
      "Shoot.modelName r = ''Bea''" "Shoot.salonName r = ''Glow''"
      "Shoot.date r = ''2024-04-01''" "Shoot.price r = 90"
      "Shoot.updatedAt r = ''2024-03-05T10:00:00.000Z''"
      "Shoot.id r = ''u1''" "Shoot.createdAt r = ''2024-03-01T10:00:00.000Z''"
      "pending (snd (updateShoot ''u1'' bea ''2024-03-05T10:00:00.000Z'' w1))
         = [shoot1][idx := r]"
      "edited (snd (updateShoot ''u1'' bea ''2024-03-05T10:00:00.000Z'' w1)) = []"
    by (elim exE conjE)
  then have "idx = 0"
    by simp
  with r l have a: "\<exists>r. fst (updateShoot ''u1'' bea ''2024-03-05T10:00:00.000Z'' w1) = Some r
         \<and> Shoot.modelName r = ''Bea''
         \<and> Shoot.salonName r = ''Glow''
         \<and> Shoot.date r = ''2024-04-01''
         \<and> Shoot.price r = 90
         \<and> Shoot.updatedAt r = ''2024-03-05T10:00:00.000Z''
         \<and> Shoot.updatedAt shoot1 < Shoot.updatedAt r
         \<and> Shoot.id r = ''u1''
         \<and> Shoot.createdAt r = ''2024-03-01T10:00:00.000Z''
         \<and> pending (snd (updateShoot ''u1'' bea ''2024-03-05T10:00:00.000Z'' w1)) = [r]
         \<and> edited (snd (updateShoot ''u1'' bea ''2024-03-05T10:00:00.000Z'' w1)) = []"
    by (intro exI [of _ r]) (simp add: i)
  note t2 = update_replaces_form_fields_and_stamps_now
    [where w = w2 and e = edited2 and form = bea and now = "''2024-03-05T10:00:00.000Z''"]
  note p2 = t2 [THEN conjunct2, THEN conjunct1, THEN mp, OF h2, unfolded i pending_w2 edited_w2]
  from p2 obtain jdx q where "jdx < length [edited2]"
    and q: "fst (updateEditedShoot ''u2'' bea ''2024-03-05T10:00:00.000Z'' w2) = Some q"
      "EditedShoot.modelName q = ''Bea''" "EditedShoot.price q = 90"
      "EditedShoot.editedAt q = ''2024-03-05T10:00:00.000Z''"
      "EditedShoot.id q = ''u2''" "EditedShoot.originalShootId q = ''u0''"
      "EditedShoot.createdAt q = ''2024-02-10T08:00:00.000Z''"
      "edited (snd (updateEditedShoot ''u2'' bea ''2024-03-05T10:00:00.000Z'' w2))
         = [edited2][jdx := q]"
      "pending (snd (updateEditedShoot ''u2'' bea ''2024-03-05T10:00:00.000Z'' w2)) = [shoot1]"
    by (elim exE conjE)
  then have "jdx = 0"
    by simp
  with q have b: "\<exists>r. fst (updateEditedShoot ''u2'' bea ''2024-03-05T10:00:00.000Z'' w2) = Some r
         \<and> EditedShoot.modelName r = ''Bea''
         \<and> EditedShoot.price r = 90
         \<and> EditedShoot.editedAt r = ''2024-03-05T10:00:00.000Z''
         \<and> EditedShoot.id r = ''u2''
         \<and> EditedShoot.originalShootId r = ''u0''
         \<and> EditedShoot.createdAt r = ''2024-02-10T08:00:00.000Z''
         \<and> edited (snd (updateEditedShoot ''u2'' bea ''2024-03-05T10:00:00.000Z'' w2)) = [r]
         \<and> pending (snd (updateEditedShoot ''u2'' bea ''2024-03-05T10:00:00.000Z'' w2))
             = [shoot1]"
    by (intro exI [of _ q]) simp
  note t0 = update_replaces_form_fields_and_stamps_now [where w = w0]
  from t0 have c: "no_write w0 (snd (getShoots w0))"
    by blast
  from t1 have c1: "no_write w1 (snd (getShootById ''u1'' w1))"
    by blast
  from h1 h2 edited_w1 a b c c1 show ?thesis
    by blast
qed

lemma readData_not_Doc:
  "DATA_FILE w = Missing \<or> DATA_FILE w = Unreadable \<Longrightarrow> fst (readData w) = emptyStore"
  by (auto simp: fst_readData)

lemma readData_Doc_emptyStore: "fst (readData (w\<lparr>DATA_FILE := Doc emptyStore\<rparr>)) = emptyStore"
  by (simp add: fst_readData)

lemma written_trace_readData [simp]: "written (trace (snd (readData w))) = written (trace w)"
  by (simp add: readData_def written_append split: data_file.splits)

lemma written_trace_writeData [simp]:
  "written (trace (writeData d w)) = written (trace w) @ [d]"
  by (simp add: writeData_def written_append)

lemmas store_defs =
  getShoots_def getShootById_def createShoot_def updateShoot_def deleteShoot_def
  moveShootToEdited_def getEditedShoots_def getEditedShootById_def updateEditedShoot_def
  moveEditedShootBack_def deleteEditedShoot_def

lemma invoke_from_empty:
  assumes "fst (readData w) = emptyStore" and "fst (readData v) = emptyStore"
    and "written (trace w) = written (trace v)"
  shows "fst (invoke c uuid now w) = fst (invoke c uuid now v)"
    and "fst (readData (snd (invoke c uuid now w))) = fst (readData (snd (invoke c uuid now v)))"
    and "written (trace (snd (invoke c uuid now w))) = written (trace (snd (invoke c uuid now v)))"
  using assms
  by (cases c; simp add: store_defs split_beta Let_def emptyStore_def)+

lemma readData_createShoot:
  "fst (readData (snd (createShoot form uuid now w))) =
     (fst (readData w))\<lparr>shoots := shoots (fst (readData w)) @ [fst (createShoot form uuid now w)]\<rparr>"
  by (simp add: createShoot_def split_beta Let_def)

section \<open>A missing or unreadable file\<close>

text \<open>
  Claim C8. When \<open>data.json\<close> is missing, or cannot be read or parsed, \<open>readData\<close> returns the
  empty two-bucket document, and every operation of the store, read or mutation, returns
  what it returns on a file holding the empty document, writes the same documents and
  leaves the same document behind.
\<close>

theorem missing_or_unreadable_file_reads_as_empty:
  assumes "DATA_FILE w = Missing \<or> DATA_FILE w = Unreadable"
  shows "fst (readData w) = \<lparr>shoots = [], editedShoots = []\<rparr>
       \<and> fst (invoke c uuid now w) = fst (invoke c uuid now (w\<lparr>DATA_FILE := Doc emptyStore\<rparr>))
       \<and> fst (readData (snd (invoke c uuid now w)))
           = fst (readData (snd (invoke c uuid now (w\<lparr>DATA_FILE := Doc emptyStore\<rparr>))))
       \<and> written (trace (snd (invoke c uuid now w)))
           = written (trace (snd (invoke c uuid now (w\<lparr>DATA_FILE := Doc emptyStore\<rparr>))))"
proof -
  have e: "fst (readData w) = emptyStore"
    using assms by (rule readData_not_Doc)
  have t: "written (trace w) = written (trace (w\<lparr>DATA_FILE := Doc emptyStore\<rparr>))"
    by simp
  from e invoke_from_empty [OF e readData_Doc_emptyStore t, of c uuid now] show ?thesis
    by (simp add: emptyStore_def)
qed

theorem missing_or_unreadable_file_reads_as_empty_witness:
  "DATA_FILE w0 = Missing
   \<and> fst (readData w0) = \<lparr>shoots = [], editedShoots = []\<rparr>
   \<and> fst (invoke (CreateShoot ava) ''u1'' ''2024-03-01T10:00:00.000Z'' w0)
       = ShootOrNull (Some shoot1)
   \<and> fst (invoke (CreateShoot ava) ''u1'' ''2024-03-01T10:00:00.000Z''
            (w0\<lparr>DATA_FILE := Doc emptyStore\<rparr>)) = ShootOrNull (Some shoot1)
   \<and> fst (readData (snd (invoke (CreateShoot ava) ''u1'' ''2024-03-01T10:00:00.000Z'' w0)))
       = \<lparr>shoots = [shoot1], editedShoots = []\<rparr>"
proof -
  have h: "DATA_FILE w0 = Missing"
    by (simp add: w0_def)
  then have h': "DATA_FILE w0 = Missing \<or> DATA_FILE w0 = Unreadable"
    by simp
  have v: "fst (invoke (CreateShoot ava) ''u1'' ''2024-03-01T10:00:00.000Z''
            (w0\<lparr>DATA_FILE := Doc emptyStore\<rparr>)) = ShootOrNull (Some shoot1)"
    by (simp add: fst_createShoot shoot1_def ava_def)
  have d: "fst (readData (snd (invoke (CreateShoot ava) ''u1'' ''2024-03-01T10:00:00.000Z''
            (w0\<lparr>DATA_FILE := Doc emptyStore\<rparr>)))) = \<lparr>shoots = [shoot1], editedShoots = []\<rparr>"
    by (simp add: readData_createShoot readData_Doc_emptyStore fst_createShoot)
      (simp add: emptyStore_def shoot1_def ava_def)
  from missing_or_unreadable_file_reads_as_empty [OF h', of "CreateShoot ava" "''u1''"
      "''2024-03-01T10:00:00.000Z''"] h v d
  show ?thesis
    by simp
qed

lemma getProp_body_price:
  "getProp (body_price v) ''modelName'' = JStr ''Ava''"
  "getProp (body_price v) ''salonName'' = JStr ''Luxe''"
  "getProp (body_price v) ''date'' = JStr ''2024-03-01''"
  "getProp (body_price v) ''price'' = v"
  by (simp_all add: getProp_def body_price_def)

lemma getProp_body_no_name:
  "getProp body_no_name ''modelName'' = JStr ''''"
  "getProp body_no_name ''salonName'' = JStr ''Luxe''"
  "getProp body_no_name ''date'' = JStr ''2024-03-01''"
  "getProp body_no_name ''price'' = JNum (Fin 150)"
  by (simp_all add: getProp_def body_no_name_def)

lemma nullish_iff: "nullish v \<longleftrightarrow> v = JNull \<or> v = JUndefined"
  by (cases v) simp_all

lemma rejected:
  assumes "\<not> truthy (getProp b ''modelName'') \<or> \<not> truthy (getProp b ''salonName'')
           \<or> \<not> truthy (getProp b ''date'') \<or> nullish (getProp b ''price'')"
  shows "post_shoots conv b uuid now w = (Response 400 (Message ''All fields are required''), w)"
    and "put_shoot conv i b now w = (Response 400 (Message ''All fields are required''), w)"
    and "put_edited_shoot conv i b now w = (Response 400 (Message ''All fields are required''), w)"
  using assms by (auto simp: post_shoots_def put_shoot_def put_edited_shoot_def Let_def)

lemma accepted:
  assumes "truthy (getProp b ''modelName'')" and "truthy (getProp b ''salonName'')"
    and "truthy (getProp b ''date'')" and "\<not> nullish (getProp b ''price'')"
    and "Number conv (getProp b ''price'') = Some p"
  shows "post_shoots conv b uuid now w =
           (Response 201 (ShootJson (fst (createShoot
               \<lparr>ShootFormData.modelName = getProp b ''modelName'',
                salonName = getProp b ''salonName'', date = getProp b ''date'',
                price = p\<rparr> uuid now w))),
            snd (createShoot
               \<lparr>ShootFormData.modelName = getProp b ''modelName'',
                salonName = getProp b ''salonName'', date = getProp b ''date'',
                price = p\<rparr> uuid now w))"
    and "put_shoot conv i b now w =
           (case fst (updateShoot i
               \<lparr>ShootFormData.modelName = getProp b ''modelName'',
                salonName = getProp b ''salonName'', date = getProp b ''date'',
                price = p\<rparr> now w) of
              None \<Rightarrow> Response 404 (Message ''Shoot not found'')
            | Some s \<Rightarrow> Response 200 (ShootJson s),
            snd (updateShoot i
               \<lparr>ShootFormData.modelName = getProp b ''modelName'',
                salonName = getProp b ''salonName'', date = getProp b ''date'',
                price = p\<rparr> now w))"
    and "put_edited_shoot conv i b now w =
           (case fst (updateEditedShoot i
               \<lparr>ShootFormData.modelName = getProp b ''modelName'',
                salonName = getProp b ''salonName'', date = getProp b ''date'',
                price = p\<rparr> now w) of
              None \<Rightarrow> Response 404 (Message ''Edited shoot not found'')
            | Some e \<Rightarrow> Response 200 (EditedShootJson e),
            snd (updateEditedShoot i
               \<lparr>ShootFormData.modelName = getProp b ''modelName'',
                salonName = getProp b ''salonName'', date = getProp b ''date'',
                price = p\<rparr> now w))"
  using assms
  by (simp_all add: post_shoots_def put_shoot_def put_edited_shoot_def Let_def split_beta
      split: option.splits)
lemma threw:
  assumes "truthy (getProp b ''modelName'')" and "truthy (getProp b ''salonName'')"
    and "truthy (getProp b ''date'')" and "\<not> nullish (getProp b ''price'')"
    and "Number conv (getProp b ''price'') = None"
  shows "post_shoots conv b uuid now w = (Threw, w)"
    and "put_shoot conv i b now w = (Threw, w)"
    and "put_edited_shoot conv i b now w = (Threw, w)"
  using assms
  by (simp_all add: post_shoots_def put_shoot_def put_edited_shoot_def Let_def)

section \<open>Validation at the facade\<close>

text \<open>
  Claim C5, as stated, has the facade answer 400 to a non-numeric price and pass only
  finite, non-negative prices to the store. The handlers test the price against
  \<open>null\<close>/\<open>undefined\<close> only and pass on \<open>Number(price)\<close> unchecked: a POST whose price is the
  boolean \<open>true\<close> is answered 201 with the price \<open>1\<close>, and a POST whose price is \<open>-5\<close> is
  answered 201 and the store writes a record with the price \<open>-5\<close>.
\<close>

theorem price_not_validated_counterexample:
  "fst (post_shoots conv_NaN (body_price (JBool True)) ''u1'' ''2024-03-01T10:00:00.000Z'' ws0)
     = Response 201 (ShootJson
         \<lparr>Shoot.id = ''u1'', modelName = JStr ''Ava'', salonName = JStr ''Luxe'',
          date = JStr ''2024-03-01'', price = Fin 1,
          createdAt = ''2024-03-01T10:00:00.000Z'', updatedAt = ''2024-03-01T10:00:00.000Z''\<rparr>)
   \<and> fst (post_shoots conv_NaN (body_price (JNum (Fin (- 5)))) ''u1''
          ''2024-03-01T10:00:00.000Z'' ws0)
     = Response 201 (ShootJson
         \<lparr>Shoot.id = ''u1'', modelName = JStr ''Ava'', salonName = JStr ''Luxe'',
          date = JStr ''2024-03-01'', price = Fin (- 5),
          createdAt = ''2024-03-01T10:00:00.000Z'', updatedAt = ''2024-03-01T10:00:00.000Z''\<rparr>)
   \<and> pending (snd (post_shoots conv_NaN (body_price (JNum (Fin (- 5)))) ''u1''
          ''2024-03-01T10:00:00.000Z'' ws0))
     = [\<lparr>Shoot.id = ''u1'', modelName = JStr ''Ava'', salonName = JStr ''Luxe'',
          date = JStr ''2024-03-01'', price = Fin (- 5),
          createdAt = ''2024-03-01T10:00:00.000Z'', updatedAt = ''2024-03-01T10:00:00.000Z''\<rparr>]
   \<and> \<not> finite_nonneg (Fin (- 5))"
  by (simp add: post_shoots_def getProp_body_price Let_def split_beta fst_createShoot
      pending_createShoot)
    (simp add: pending_def ws0_def fst_readData emptyStore_def)

text \<open>
  Claim C5, amended. For every body of POST /api/shoots, PUT /api/shoots/:id and
  PUT /api/edited-shoots/:id: when \<open>modelName\<close>, \<open>salonName\<close> or \<open>date\<close> is missing or falsy, or
  \<open>price\<close> is \<open>null\<close> or \<open>undefined\<close>, the facade answers 400 and the store is not invoked
  (the world, with its trace of file operations, is unchanged). Otherwise \<open>Number(price)\<close>
  is evaluated: if it throws, the handler throws and the store is not invoked; if it
  returns a number, the store is invoked with the three text values of the body and with
  that number as the price, whatever number it is.
\<close>

theorem facade_rejects_missing_fields_else_passes_Number_of_price:
  "(\<not> truthy (getProp b ''modelName'') \<or> \<not> truthy (getProp b ''salonName'')
      \<or> \<not> truthy (getProp b ''date'') \<or> nullish (getProp b ''price'') \<longrightarrow>
        post_shoots conv b uuid now w = (Response 400 (Message ''All fields are required''), w)
      \<and> put_shoot conv i b now w = (Response 400 (Message ''All fields are required''), w)
      \<and> put_edited_shoot conv i b now w
          = (Response 400 (Message ''All fields are required''), w))
   \<and> (truthy (getProp b ''modelName'') \<and> truthy (getProp b ''salonName'')
      \<and> truthy (getProp b ''date'') \<and> \<not> nullish (getProp b ''price'') \<longrightarrow>
        (Number conv (getProp b ''price'') = None \<longrightarrow>
            post_shoots conv b uuid now w = (Threw, w)
          \<and> put_shoot conv i b now w = (Threw, w)
          \<and> put_edited_shoot conv i b now w = (Threw, w))
      \<and> (\<forall>p. Number conv (getProp b ''price'') = Some p \<longrightarrow>
            post_shoots conv b uuid now w =
              (Response 201 (ShootJson (fst (createShoot
                  \<lparr>ShootFormData.modelName = getProp b ''modelName'',
                   salonName = getProp b ''salonName'', date = getProp b ''date'',
                   price = p\<rparr> uuid now w))),
               snd (createShoot
                  \<lparr>ShootFormData.modelName = getProp b ''modelName'',
                   salonName = getProp b ''salonName'', date = getProp b ''date'',
                   price = p\<rparr> uuid now w))
          \<and> put_shoot conv i b now w =
              (case fst (updateShoot i
                  \<lparr>ShootFormData.modelName = getProp b ''modelName'',
                   salonName = getProp b ''salonName'', date = getProp b ''date'',
                   price = p\<rparr> now w) of
                 None \<Rightarrow> Response 404 (Message ''Shoot not found'')
               | Some s \<Rightarrow> Response 200 (ShootJson s),
               snd (updateShoot i
                  \<lparr>ShootFormData.modelName = getProp b ''modelName'',
                   salonName = getProp b ''salonName'', date = getProp b ''date'',
                   price = p\<rparr> now w))
          \<and> put_edited_shoot conv i b now w =
              (case fst (updateEditedShoot i
                  \<lparr>ShootFormData.modelName = getProp b ''modelName'',
                   salonName = getProp b ''salonName'', date = getProp b ''date'',
                   price = p\<rparr> now w) of
                 None \<Rightarrow> Response 404 (Message ''Edited shoot not found'')
               | Some e \<Rightarrow> Response 200 (EditedShootJson e),
               snd (updateEditedShoot i
                  \<lparr>ShootFormData.modelName = getProp b ''modelName'',
                   salonName = getProp b ''salonName'', date = getProp b ''date'',
                   price = p\<rparr> now w))))"
proof (intro conjI impI allI)
  assume r: "\<not> truthy (getProp b ''modelName'') \<or> \<not> truthy (getProp b ''salonName'')
      \<or> \<not> truthy (getProp b ''date'') \<or> nullish (getProp b ''price'')"
  show "post_shoots conv b uuid now w = (Response 400 (Message ''All fields are required''), w)"
    by (rule rejected(1) [OF r])
  show "put_shoot conv i b now w = (Response 400 (Message ''All fields are required''), w)"
    by (rule rejected(2) [OF r])
  show "put_edited_shoot conv i b now w
      = (Response 400 (Message ''All fields are required''), w)"
    by (rule rejected(3) [OF r])
next
  assume v: "truthy (getProp b ''modelName'') \<and> truthy (getProp b ''salonName'')
      \<and> truthy (getProp b ''date'') \<and> \<not> nullish (getProp b ''price'')"
    and n: "Number conv (getProp b ''price'') = None"
  from v n show "post_shoots conv b uuid now w = (Threw, w)"
    by (intro threw(1)) simp_all
  from v n show "put_shoot conv i b now w = (Threw, w)"
    by (intro threw(2)) simp_all
  from v n show "put_edited_shoot conv i b now w = (Threw, w)"
    by (intro threw(3)) simp_all
next
  fix p
  assume v: "truthy (getProp b ''modelName'') \<and> truthy (getProp b ''salonName'')
      \<and> truthy (getProp b ''date'') \<and> \<not> nullish (getProp b ''price'')"
    and n: "Number conv (getProp b ''price'') = Some p"
  from v n show "post_shoots conv b uuid now w =
              (Response 201 (ShootJson (fst (createShoot
                  \<lparr>ShootFormData.modelName = getProp b ''modelName'',
                   salonName = getProp b ''salonName'', date = getProp b ''date'',
                   price = p\<rparr> uuid now w))),
               snd (createShoot
                  \<lparr>ShootFormData.modelName = getProp b ''modelName'',
                   salonName = getProp b ''salonName'', date = getProp b ''date'',
                   price = p\<rparr> uuid now w))"
    by (intro accepted(1)) simp_all
  from v n show "put_shoot conv i b now w =
              (case fst (updateShoot i
                  \<lparr>ShootFormData.modelName = getProp b ''modelName'',
                   salonName = getProp b ''salonName'', date = getProp b ''date'',
                   price = p\<rparr> now w) of
                 None \<Rightarrow> Response 404 (Message ''Shoot not found'')
               | Some s \<Rightarrow> Response 200 (ShootJson s),
               snd (updateShoot i
                  \<lparr>ShootFormData.modelName = getProp b ''modelName'',
                   salonName = getProp b ''salonName'', date = getProp b ''date'',
                   price = p\<rparr> now w))"
    by (intro accepted(2)) simp_all
  from v n show "put_edited_shoot conv i b now w =
              (case fst (updateEditedShoot i
                  \<lparr>ShootFormData.modelName = getProp b ''modelName'',
                   salonName = getProp b ''salonName'', date = getProp b ''date'',
                   price = p\<rparr> now w) of
                 None \<Rightarrow> Response 404 (Message ''Edited shoot not found'')
               | Some e \<Rightarrow> Response 200 (EditedShootJson e),
               snd (updateEditedShoot i
                  \<lparr>ShootFormData.modelName = getProp b ''modelName'',
                   salonName = getProp b ''salonName'', date = getProp b ''date'',
                   price = p\<rparr> now w))"
    by (intro accepted(3)) simp_all
qed

theorem facade_rejects_missing_fields_else_passes_Number_of_price_witness:
  "\<not> truthy (getProp body_no_name ''modelName'')
   \<and> post_shoots conv_NaN body_no_name ''u1'' ''2024-03-01T10:00:00.000Z'' ws0
       = (Response 400 (Message ''All fields are required''), ws0)
   \<and> put_shoot conv_NaN ''zz'' body_no_name ''2024-03-01T10:00:00.000Z'' ws0
       = (Response 400 (Message ''All fields are required''), ws0)
   \<and> put_edited_shoot conv_NaN ''zz'' body_no_name ''2024-03-01T10:00:00.000Z'' ws0
       = (Response 400 (Message ''All fields are required''), ws0)
   \<and> truthy (getProp (body_price (JNum (Fin 150))) ''modelName'')
   \<and> truthy (getProp (body_price (JNum (Fin 150))) ''salonName'')
   \<and> truthy (getProp (body_price (JNum (Fin 150))) ''date'')
   \<and> \<not> nullish (getProp (body_price (JNum (Fin 150))) ''price'')
   \<and> Number conv_NaN (getProp (body_price (JNum (Fin 150))) ''price'') = Some (Fin 150)
   \<and> fst (post_shoots conv_NaN (body_price (JNum (Fin 150))) ''u1''
          ''2024-03-01T10:00:00.000Z'' ws0)
       = Response 201 (ShootJson
           \<lparr>Shoot.id = ''u1'', modelName = JStr ''Ava'', salonName = JStr ''Luxe'',
            date = JStr ''2024-03-01'', price = Fin 150,
            createdAt = ''2024-03-01T10:00:00.000Z'',
            updatedAt = ''2024-03-01T10:00:00.000Z''\<rparr>)
   \<and> fst (put_shoot conv_NaN ''zz'' (body_price (JNum (Fin 150)))
          ''2024-03-01T10:00:00.000Z'' ws0)
       = Response 404 (Message ''Shoot not found'')
   \<and> truthy (getProp (body_price not_callable) ''modelName'')
   \<and> \<not> nullish (getProp (body_price not_callable) ''price'')
   \<and> Number conv_TypeError (getProp (body_price not_callable) ''price'') = None
   \<and> post_shoots conv_TypeError (body_price not_callable) ''u1''
         ''2024-03-01T10:00:00.000Z'' ws0 = (Threw, ws0)
   \<and> put_shoot conv_TypeError ''zz'' (body_price not_callable)
         ''2024-03-01T10:00:00.000Z'' ws0 = (Threw, ws0)
   \<and> put_edited_shoot conv_TypeError ''zz'' (body_price not_callable)
         ''2024-03-01T10:00:00.000Z'' ws0 = (Threw, ws0)"
proof -
  let ?b = "body_price (JNum (Fin 150))"
  let ?c = "body_price not_callable"
  have h1: "\<not> truthy (getProp body_no_name ''modelName'')
      \<or> \<not> truthy (getProp body_no_name ''salonName'')
      \<or> \<not> truthy (getProp body_no_name ''date'') \<or> nullish (getProp body_no_name ''price'')"
    and h0: "\<not> truthy (getProp body_no_name ''modelName'')"
    by (simp_all add: getProp_body_no_name)
  have h2: "truthy (getProp ?b ''modelName'') \<and> truthy (getProp ?b ''salonName'')
      \<and> truthy (getProp ?b ''date'') \<and> \<not> nullish (getProp ?b ''price'')"
    and h3: "Number conv_NaN (getProp ?b ''price'') = Some (Fin 150)"
    by (simp_all add: getProp_body_price)
  have h4: "truthy (getProp ?c ''modelName'') \<and> truthy (getProp ?c ''salonName'')
      \<and> truthy (getProp ?c ''date'') \<and> \<not> nullish (getProp ?c ''price'')"
    and h5: "Number conv_TypeError (getProp ?c ''price'') = None"
    by (simp_all add: getProp_body_price) (simp_all add: not_callable_def conv_TypeError_def)
  have a: "findIndex (\<lambda>s. Shoot.id s = ''zz'') (pending ws0) = None"
    by (simp add: pending_def ws0_def fst_readData emptyStore_def)
  note t1 = facade_rejects_missing_fields_else_passes_Number_of_price
    [where b = body_no_name and conv = conv_NaN and uuid = "''u1''"
      and now = "''2024-03-01T10:00:00.000Z''" and w = ws0 and i = "''zz''"]
  note r1 = t1 [THEN conjunct1, THEN mp, OF h1]
  note t2 = facade_rejects_missing_fields_else_passes_Number_of_price
    [where b = ?b and conv = conv_NaN and uuid = "''u1''"
      and now = "''2024-03-01T10:00:00.000Z''" and w = ws0 and i = "''zz''"]
  note r2 = t2 [THEN conjunct2, THEN mp, OF h2, THEN conjunct2, THEN spec, THEN mp, OF h3]
  note t3 = facade_rejects_missing_fields_else_passes_Number_of_price
    [where b = ?c and conv = conv_TypeError and uuid = "''u1''"
      and now = "''2024-03-01T10:00:00.000Z''" and w = ws0 and i = "''zz''"]
  note r3 = t3 [THEN conjunct2, THEN mp, OF h4, THEN conjunct1, THEN mp, OF h5]
  from r2 have p: "fst (post_shoots conv_NaN ?b ''u1'' ''2024-03-01T10:00:00.000Z'' ws0)
       = Response 201 (ShootJson
           \<lparr>Shoot.id = ''u1'', modelName = JStr ''Ava'', salonName = JStr ''Luxe'',
            date = JStr ''2024-03-01'', price = Fin 150,
            createdAt = ''2024-03-01T10:00:00.000Z'',
            updatedAt = ''2024-03-01T10:00:00.000Z''\<rparr>)"
    and q: "fst (put_shoot conv_NaN ''zz'' ?b ''2024-03-01T10:00:00.000Z'' ws0)
       = Response 404 (Message ''Shoot not found'')"
    by (simp_all add: fst_createShoot getProp_body_price updateShoot_None [OF a])
  from h0 r1 h2 h3 p q h4 h5 r3 show ?thesis
    by simp
qed

lemma status_400_iff_nullish:
  assumes "truthy (getProp b ''modelName'')" and "truthy (getProp b ''salonName'')"
    and "truthy (getProp b ''date'')"
  shows "(status (fst (post_shoots conv b uuid now w)) = Some 400) = nullish (getProp b ''price'')"
    and "(status (fst (put_shoot conv i b now w)) = Some 400) = nullish (getProp b ''price'')"
    and "(status (fst (put_edited_shoot conv i b now w)) = Some 400)
           = nullish (getProp b ''price'')"
  using assms
  by (auto simp: post_shoots_def put_shoot_def put_edited_shoot_def Let_def split_beta
      split: option.splits)

text \<open>
  Claim C10. In the three handlers that take a body, with the three text fields present,
  the answer is 400 exactly when the price is \<open>null\<close> or \<open>undefined\<close>; a price of \<open>0\<close> passes,
  and POST then answers 201 with a record whose price is \<open>0\<close>. The empty string is falsy,
  so a body whose \<open>modelName\<close>, \<open>salonName\<close> or \<open>date\<close> is the empty string is answered 400
  with the store not invoked. For the two PUT handlers this holds for every identifier, in
  the store or not: the validation comes before the lookup, and an absent identifier with
  a failing body gets 400, not 404.
\<close>

theorem zero_price_passes_empty_text_is_400_before_lookup:
  assumes "truthy (getProp b ''modelName'')" and "truthy (getProp b ''salonName'')"
    and "truthy (getProp b ''date'')"
    and "getProp be ''modelName'' = JStr [] \<or> getProp be ''salonName'' = JStr []
         \<or> getProp be ''date'' = JStr []"
  shows "(status (fst (post_shoots conv b uuid now w)) = Some 400)
           = (getProp b ''price'' = JNull \<or> getProp b ''price'' = JUndefined)
       \<and> (status (fst (put_shoot conv i b now w)) = Some 400)
           = (getProp b ''price'' = JNull \<or> getProp b ''price'' = JUndefined)
       \<and> (status (fst (put_edited_shoot conv i b now w)) = Some 400)
           = (getProp b ''price'' = JNull \<or> getProp b ''price'' = JUndefined)
       \<and> (getProp b ''price'' = JNum (Fin 0) \<longrightarrow>
            (\<exists>s. fst (post_shoots conv b uuid now w) = Response 201 (ShootJson s)
               \<and> Shoot.price s = Fin 0)
            \<and> status (fst (put_shoot conv i b now w)) \<noteq> Some 400
            \<and> status (fst (put_edited_shoot conv i b now w)) \<noteq> Some 400)
       \<and> post_shoots conv be uuid now w = (Response 400 (Message ''All fields are required''), w)
       \<and> put_shoot conv i be now w = (Response 400 (Message ''All fields are required''), w)
       \<and> put_edited_shoot conv i be now w
           = (Response 400 (Message ''All fields are required''), w)"
proof -
  note n = status_400_iff_nullish [OF assms(1-3), of conv]
  have z: "getProp b ''price'' = JNum (Fin 0) \<longrightarrow>
            (\<exists>s. fst (post_shoots conv b uuid now w) = Response 201 (ShootJson s)
               \<and> Shoot.price s = Fin 0)
            \<and> status (fst (put_shoot conv i b now w)) \<noteq> Some 400
            \<and> status (fst (put_edited_shoot conv i b now w)) \<noteq> Some 400"
  proof
    assume p: "getProp b ''price'' = JNum (Fin 0)"
    then have "\<not> nullish (getProp b ''price'')"
      and "Number conv (getProp b ''price'') = Some (Fin 0)"
      by simp_all
    from accepted(1) [OF assms(1-3) this, of uuid now w] n(2,3) [of i now w] p
    show "(\<exists>s. fst (post_shoots conv b uuid now w) = Response 201 (ShootJson s)
               \<and> Shoot.price s = Fin 0)
            \<and> status (fst (put_shoot conv i b now w)) \<noteq> Some 400
            \<and> status (fst (put_edited_shoot conv i b now w)) \<noteq> Some 400"
      by (simp add: fst_createShoot)
  qed
  from assms(4) have "\<not> truthy (getProp be ''modelName'') \<or> \<not> truthy (getProp be ''salonName'')
           \<or> \<not> truthy (getProp be ''date'') \<or> nullish (getProp be ''price'')"
    by auto
  from rejected [OF this, of conv] n z show ?thesis
    by (simp add: nullish_iff)
qed

theorem zero_price_passes_empty_text_is_400_before_lookup_witness:
  "truthy (getProp (body_price (JNum (Fin 0))) ''modelName'')
   \<and> truthy (getProp (body_price (JNum (Fin 0))) ''salonName'')
   \<and> truthy (getProp (body_price (JNum (Fin 0))) ''date'')
   \<and> getProp body_no_name ''modelName'' = JStr []
   \<and> getProp (body_price (JNum (Fin 0))) ''price'' = JNum (Fin 0)
   \<and> ''zz'' \<notin> Shoot.id ` set (pending ws0)
   \<and> ''zz'' \<notin> EditedShoot.id ` set (edited ws0)
   \<and> (\<exists>s. fst (post_shoots conv_NaN (body_price (JNum (Fin 0))) ''u1''
              ''2024-03-01T10:00:00.000Z'' ws0) = Response 201 (ShootJson s)
          \<and> Shoot.price s = Fin 0)
   \<and> status (fst (put_shoot conv_NaN ''zz'' (body_price (JNum (Fin 0)))
        ''2024-03-01T10:00:00.000Z'' ws0)) \<noteq> Some 400
   \<and> post_shoots conv_NaN body_no_name ''u1'' ''2024-03-01T10:00:00.000Z'' ws0
       = (Response 400 (Message ''All fields are required''), ws0)
   \<and> put_shoot conv_NaN ''zz'' body_no_name ''2024-03-01T10:00:00.000Z'' ws0
       = (Response 400 (Message ''All fields are required''), ws0)
   \<and> put_edited_shoot conv_NaN ''zz'' body_no_name ''2024-03-01T10:00:00.000Z'' ws0
       = (Response 400 (Message ''All fields are required''), ws0)"
proof -
  let ?b = "body_price (JNum (Fin 0))"
  have h1: "truthy (getProp ?b ''modelName'')" and h2: "truthy (getProp ?b ''salonName'')"
    and h3: "truthy (getProp ?b ''date'')" and h5: "getProp ?b ''price'' = JNum (Fin 0)"
    by (simp_all add: getProp_body_price)
  have h4: "getProp body_no_name ''modelName'' = JStr []"
    by (simp add: getProp_body_no_name)
  then have h4': "getProp body_no_name ''modelName'' = JStr []
      \<or> getProp body_no_name ''salonName'' = JStr [] \<or> getProp body_no_name ''date'' = JStr []"
    by simp
  have a: "''zz'' \<notin> Shoot.id ` set (pending ws0)" "''zz'' \<notin> EditedShoot.id ` set (edited ws0)"
    by (simp_all add: pending_def edited_def ws0_def fst_readData emptyStore_def)
  note t = zero_price_passes_empty_text_is_400_before_lookup
    [OF h1 h2 h3 h4', of conv_NaN "''u1''" "''2024-03-01T10:00:00.000Z''" ws0 "''zz''"]
  from t h5 have "(\<exists>s. fst (post_shoots conv_NaN ?b ''u1''
              ''2024-03-01T10:00:00.000Z'' ws0) = Response 201 (ShootJson s)
          \<and> Shoot.price s = Fin 0)
      \<and> status (fst (put_shoot conv_NaN ''zz'' ?b ''2024-03-01T10:00:00.000Z'' ws0)) \<noteq> Some 400"
    by blast
  with t h1 h2 h3 h4 h5 a show ?thesis
    by blast
qed


































section \<open>The invariant of the reachable states\<close>









lemma digit_mem: "n < 10 \<Longrightarrow> digit n \<in> set ''0123456789''"
  unfolding digit_def by (rule nth_mem) simp

lemma digit_inj: "a < 10 \<Longrightarrow> b < 10 \<Longrightarrow> digit a = digit b \<Longrightarrow> a = b"
  unfolding digit_def by (subst (asm) nth_eq_iff_index_eq) simp_all

lemma show_nat_simps:
  "n < 10 \<Longrightarrow> show_nat n = [digit n]"
  "\<not> n < 10 \<Longrightarrow> show_nat n = show_nat (n div 10) @ [digit (n mod 10)]"
  by (simp_all add: show_nat.simps [of n])

lemma show_nat_digits: "set (show_nat n) \<subseteq> set ''0123456789''"
proof (induction n rule: show_nat.induct)
  case (1 n)
  show ?case
  proof (cases "n < 10")
    case True
    then show ?thesis
      using digit_mem [of n] by (simp add: show_nat_simps(1))
  next
    case False
    with "1" digit_mem [of "n mod 10"] show ?thesis
      by (simp add: show_nat_simps(2))
  qed
qed

lemma show_nat_not_Nil: "show_nat n \<noteq> []"
  by (cases "n < 10") (simp_all add: show_nat_simps)

lemma show_nat_inj: "show_nat a = show_nat b \<Longrightarrow> a = b"
proof (induction a arbitrary: b rule: show_nat.induct)
  case (1 a)
  show ?case
  proof (cases "a < 10")
    case a: True
    show ?thesis
    proof (cases "b < 10")
      case True
      with a "1.prems" show ?thesis
        by (simp add: show_nat_simps(1) digit_inj)
    next
      case False
      with a "1.prems" show_nat_not_Nil [of "b div 10"] show ?thesis
        by (simp add: show_nat_simps)
    qed
  next
    case a: False
    show ?thesis
    proof (cases "b < 10")
      case True
      with a "1.prems" show_nat_not_Nil [of "a div 10"] show ?thesis
        by (simp add: show_nat_simps)
    next
      case False
      with a "1.prems" have "show_nat (a div 10) = show_nat (b div 10)"
        and "digit (a mod 10) = digit (b mod 10)"
        by (simp_all add: show_nat_simps(2))
      with "1.IH" [OF a] have "a div 10 = b div 10" and "a mod 10 = b mod 10"
        by (simp_all add: digit_inj)
      then show ?thesis
        by (metis div_mult_mod_eq)
    qed
  qed
qed

lemma minus_not_digit: "CHR ''-'' \<notin> set ''0123456789''"
  by simp

lemma N_not_digit: "CHR ''N'' \<notin> set ''0123456789''"
  by simp

lemma minus_not_in_show_nat: "CHR ''-'' \<notin> set (show_nat n)"
  using show_nat_digits [of n] minus_not_digit by blast

lemma N_not_in_show_nat: "CHR ''N'' \<notin> set (show_nat n)"
  using show_nat_digits [of n] N_not_digit by blast

lemma show_int_inj: "show_int a = show_int b \<Longrightarrow> a = b"
proof -
  assume e: "show_int a = show_int b"
  have neg_pos: False if "x < 0" "\<not> y < 0" "show_int x = show_int y" for x y :: int
  proof -
    from that have "CHR ''-'' # show_nat (nat (- x)) = show_nat (nat y)"
      by (simp add: show_int_def)
    then have "CHR ''-'' \<in> set (show_nat (nat y))"
      by (metis list.set_intros(1))
    with minus_not_in_show_nat show False
      by blast
  qed
  show ?thesis
  proof (cases "a < 0")
    case a: True
    show ?thesis
    proof (cases "b < 0")
      case True
      with a e have "nat (- a) = nat (- b)"
        by (simp add: show_int_def show_nat_inj)
      with a True show ?thesis by simp
    next
      case False
      with a e neg_pos show ?thesis by blast
    qed
  next
    case a: False
    show ?thesis
    proof (cases "b < 0")
      case True
      with a e neg_pos [of b a] show ?thesis by simp
    next
      case False
      with a e have "nat a = nat b"
        by (simp add: show_int_def show_nat_inj)
      with a False show ?thesis by simp
    qed
  qed
qed

lemma N_not_in_show_int: "CHR ''N'' \<notin> set (show_int i)"
  by (simp add: show_int_def N_not_in_show_nat)

lemma NaN_not_show_int: "''NaN'' \<noteq> show_int i"
proof
  assume "''NaN'' = show_int i"
  then have "CHR ''N'' \<in> set (show_int i)"
    by (metis list.set_intros(1))
  with N_not_in_show_int show False
    by blast
qed

lemma toString_inj: "toString a = toString b \<Longrightarrow> a = b"
  using NaN_not_show_int NaN_not_show_int [symmetric]
  by (cases a; cases b) (auto simp: toString_def dest: show_int_inj)

lemma minus_not_in_toString_nat: "CHR ''-'' \<notin> set (toString (map_option int m))"
  by (cases m) (simp_all add: toString_def show_int_def minus_not_in_show_nat)

lemma split_at_first:
  "c \<notin> set p \<Longrightarrow> c \<notin> set p' \<Longrightarrow> p @ c # q = p' @ c # q' \<Longrightarrow> p = p' \<and> q = q'"
proof (induction p arbitrary: p')
  case Nil
  then show ?case by (cases p') auto
next
  case (Cons a p)
  then show ?case by (cases p') auto
qed

lemma split_at_last:
  assumes "c \<notin> set t" and "c \<notin> set t'" and "s @ c # t = s' @ c # t'"
  shows "s = s' \<and> t = t'"
proof -
  from assms(3) have "rev (s @ c # t) = rev (s' @ c # t')"
    by simp
  then have "rev t @ c # rev s = rev t' @ c # rev s'"
    by simp
  with assms(1,2) have "rev t = rev t' \<and> rev s = rev s'"
    by (intro split_at_first) simp_all
  then show ?thesis by simp
qed

lemma monthKey_inj: "monthKey d = monthKey d' \<Longrightarrow> d = d'"
proof -
  assume "monthKey d = monthKey d'"
  then have "toString (map_option fst d) = toString (map_option fst d')
      \<and> toString (map_option int (map_option snd d)) = toString (map_option int (map_option snd d'))"
    unfolding monthKey_def
    by (intro split_at_last [where c = "CHR ''-''"]) (simp_all add: minus_not_in_toString_nat)
  then have "map_option fst d = map_option fst d'"
    and "map_option int (map_option snd d) = map_option int (map_option snd d')"
    by (auto dest: toString_inj)
  then show ?thesis
    by (cases d; cases d') (auto simp: prod_eq_iff)
qed

lemma groups_Nil: "groups D [] = []"
  by (simp add: groups_def)

lemma groups_snoc:
  "groups D (xs @ [s]) =
     (if D (Shoot.date s) \<in> set (groups D xs) then groups D xs
      else groups D xs @ [D (Shoot.date s)])"
  by (simp add: groups_def)

lemma set_groups: "set (groups D xs) = (\<lambda>s. D (Shoot.date s)) ` set xs"
  by (simp add: groups_def)

lemma distinct_groups: "distinct (groups D xs)"
  by (simp add: groups_def)

lemma sumPrices_snoc: "sumPrices (xs @ [s]) = sumPrices xs + Shoot.price s"
  by (simp add: sumPrices_def)

lemma bucketOf_snoc_other:
  "d \<noteq> D (Shoot.date s) \<Longrightarrow> bucketOf D d (xs @ [s]) = bucketOf D d xs"
  by (auto simp: bucketOf_def shootsOfMonth_def)

lemma bucketOf_snoc_same:
  "bucketOf D (D (Shoot.date s)) (xs @ [s]) =
     (bucketOf D (D (Shoot.date s)) xs)
       \<lparr>shootCount := shootCount (bucketOf D (D (Shoot.date s)) xs) + 1,
        totalEarnings := totalEarnings (bucketOf D (D (Shoot.date s)) xs) + Shoot.price s\<rparr>"
  by (simp add: bucketOf_def shootsOfMonth_def sumPrices_snoc)

lemma bucketOf_absent:
  "d \<notin> (\<lambda>s. D (Shoot.date s)) ` set xs \<Longrightarrow>
     bucketOf D d xs =
       \<lparr>month = (case map_option snd d of
                   None \<Rightarrow> None
                 | Some i \<Rightarrow> if i < length MONTHS then Some (MONTHS ! i) else None),
        year = map_option fst d,
        monthNumber = map_option snd d,
        shootCount = 0,
        totalEarnings = 0\<rparr>"
proof -
  assume "d \<notin> (\<lambda>s. D (Shoot.date s)) ` set xs"
  then have "filter (\<lambda>s. D (Shoot.date s) = d) xs = []"
    by (auto simp: filter_empty_conv)
  then show ?thesis
    by (simp add: bucketOf_def shootsOfMonth_def sumPrices_def)
qed

lemma map_of_keyed:
  "map_of (map (\<lambda>d. (monthKey d, f d)) ds) (monthKey d0) =
     (if d0 \<in> set ds then Some (f d0) else None)"
  by (induction ds) (auto dest: monthKey_inj)

lemma map_has_keyed: "map_has (map (\<lambda>d. (monthKey d, f d)) ds) (monthKey d0) = (d0 \<in> set ds)"
  by (simp add: map_has_def map_of_keyed)

lemma map_get_keyed:
  "map_get (map (\<lambda>d. (monthKey d, f d)) ds) (monthKey d0) =
     (if d0 \<in> set ds then Some (f d0) else None)"
  by (simp add: map_get_def map_of_keyed)

lemma map_set_absent: "k \<notin> fst ` set m \<Longrightarrow> map_set k v m = m @ [(k, v)]"
  by (induction m) auto

lemma map_set_keyed:
  "distinct ds \<Longrightarrow> d0 \<in> set ds \<Longrightarrow>
     map_set (monthKey d0) v (map (\<lambda>d. (monthKey d, f d)) ds) =
       map (\<lambda>d. (monthKey d, if d = d0 then v else f d)) ds"
proof (induction ds)
  case Nil
  then show ?case by simp
next
  case (Cons d ds)
  show ?case
  proof (cases "d = d0")
    case True
    with Cons.prems(1) have "\<forall>x\<in>set ds. x \<noteq> d0"
      by auto
    then have "map (\<lambda>d. (monthKey d, if d = d0 then v else f d)) ds
        = map (\<lambda>d. (monthKey d, f d)) ds"
      by simp
    with True show ?thesis
      by simp
  next
    case False
    with Cons show ?thesis
      by (auto dest: monthKey_inj)
  qed
qed

lemma map_set_last: "k \<notin> fst ` set m \<Longrightarrow> map_set k v (m @ [(k, u)]) = m @ [(k, v)]"
  by (induction m) auto

lemma map_get_last: "k \<notin> fst ` set m \<Longrightarrow> map_get (m @ [(k, u)]) k = Some u"
  by (induction m) (auto simp: map_get_def)

lemma set_then_bump_absent:
  assumes "k \<notin> fst ` set m"
  shows "(case map_get (map_set k i m) k of
            None \<Rightarrow> map_set k i m
          | Some stat \<Rightarrow> map_set k (g stat) (map_set k i m)) = m @ [(k, g i)]"
  using assms by (simp add: map_set_absent map_get_last map_set_last)

lemma monthKey_absent:
  "d0 \<notin> set ds \<Longrightarrow> monthKey d0 \<notin> fst ` set (map (\<lambda>d. (monthKey d, f d)) ds)"
  by (auto dest: monthKey_inj)

lemma addShoot_keyed:
  assumes "distinct ds"
  shows "addShoot D (map (\<lambda>d. (monthKey d, bucketOf D d xs)) ds) s =
     (if D (Shoot.date s) \<in> set ds
      then map (\<lambda>d. (monthKey d,
                  if d = D (Shoot.date s)
                  then (bucketOf D d xs)
                         \<lparr>shootCount := shootCount (bucketOf D d xs) + 1,
                          totalEarnings := totalEarnings (bucketOf D d xs) + Shoot.price s\<rparr>
                  else bucketOf D d xs)) ds
      else map (\<lambda>d. (monthKey d, bucketOf D d xs)) ds @
           [(monthKey (D (Shoot.date s)),
             \<lparr>month = (case map_option snd (D (Shoot.date s)) of
                         None \<Rightarrow> None
                       | Some i \<Rightarrow> if i < length MONTHS then Some (MONTHS ! i) else None),
              year = map_option fst (D (Shoot.date s)),
              monthNumber = map_option snd (D (Shoot.date s)),
              shootCount = 0 + 1,
              totalEarnings = 0 + Shoot.price s\<rparr>)])"
proof (cases "D (Shoot.date s) \<in> set ds")
  case True
  then show ?thesis
    unfolding addShoot_def Let_def monthKey_def [symmetric]
    by (simp add: map_has_keyed map_get_keyed map_set_keyed [OF assms])
next
  case False
  then show ?thesis
    unfolding addShoot_def Let_def monthKey_def [symmetric]
    by (simp only: map_has_keyed if_True if_False not_False_eq_True
        set_then_bump_absent [OF monthKey_absent [OF False]]) simp
qed

lemma foldl_addShoot:
  "foldl (addShoot D) [] xs = map (\<lambda>d. (monthKey d, bucketOf D d xs)) (groups D xs)"
proof (induction xs rule: rev_induct)
  case Nil
  then show ?case by (simp add: groups_Nil)
next
  case (snoc s xs)
  let ?d = "D (Shoot.date s)"
  have step: "foldl (addShoot D) [] (xs @ [s]) =
      addShoot D (map (\<lambda>d. (monthKey d, bucketOf D d xs)) (groups D xs)) s"
    by (simp add: snoc.IH)
  show ?case
  proof (cases "?d \<in> set (groups D xs)")
    case True
    have "map (\<lambda>d. (monthKey d,
                  if d = ?d
                  then (bucketOf D d xs)
                         \<lparr>shootCount := shootCount (bucketOf D d xs) + 1,
                          totalEarnings := totalEarnings (bucketOf D d xs) + Shoot.price s\<rparr>
                  else bucketOf D d xs)) (groups D xs)
        = map (\<lambda>d. (monthKey d, bucketOf D d (xs @ [s]))) (groups D xs)"
      by (rule map_cong) (auto simp: bucketOf_snoc_same bucketOf_snoc_other)
    with True show ?thesis
      unfolding step addShoot_keyed [OF distinct_groups] groups_snoc by simp
  next
    case False
    then have a: "?d \<notin> (\<lambda>s. D (Shoot.date s)) ` set xs"
      by (simp add: set_groups)
    have "map (\<lambda>d. (monthKey d, bucketOf D d xs)) (groups D xs)
        = map (\<lambda>d. (monthKey d, bucketOf D d (xs @ [s]))) (groups D xs)"
      using False by (intro map_cong refl) (metis bucketOf_snoc_other)
    moreover have "bucketOf D ?d (xs @ [s]) =
        \<lparr>month = (case map_option snd ?d of
                    None \<Rightarrow> None
                  | Some i \<Rightarrow> if i < length MONTHS then Some (MONTHS ! i) else None),
         year = map_option fst ?d,
         monthNumber = map_option snd ?d,
         shootCount = 0 + 1,
         totalEarnings = 0 + Shoot.price s\<rparr>"
      unfolding bucketOf_snoc_same bucketOf_absent [OF a] by simp
    ultimately show ?thesis
      using False unfolding step addShoot_keyed [OF distinct_groups] groups_snoc by simp
  qed
qed

text \<open>The final sort.\<close>

lemma set_insertSorted: "set (insertSorted cmp x ys) = insert x (set ys)"
  by (induction ys) auto

lemma length_filter_insertSorted:
  "length (filter P (insertSorted cmp x ys)) = length (filter P (x # ys))"
  by (induction ys) auto

lemma set_sortBy: "set (sortBy cmp xs) = set xs"
  unfolding sortBy_def by (induction xs) (simp_all add: set_insertSorted)

lemma length_filter_sortBy: "length (filter P (sortBy cmp xs)) = length (filter P xs)"
  unfolding sortBy_def by (induction xs) (simp_all add: length_filter_insertSorted)

lemma insertSorted_Cons:
  "insertSorted cmp x (y # ys) =
     (if goes_first cmp x y then x # y # ys else y # insertSorted cmp x ys)"
  by (simp add: goes_first_def)

lemma sorted_insertSorted:
  assumes total: "\<And>a b. a \<in> A \<Longrightarrow> b \<in> A \<Longrightarrow> goes_first cmp a b \<or> goes_first cmp b a"
    and trans: "\<And>a b c. a \<in> A \<Longrightarrow> b \<in> A \<Longrightarrow> c \<in> A \<Longrightarrow>
      goes_first cmp a b \<Longrightarrow> goes_first cmp b c \<Longrightarrow> goes_first cmp a c"
    and "x \<in> A" and "set ys \<subseteq> A" and "sorted_wrt (goes_first cmp) ys"
  shows "sorted_wrt (goes_first cmp) (insertSorted cmp x ys)"
  using assms(4,5)
proof (induction ys)
  case Nil
  then show ?case by simp
next
  case (Cons y ys)
  show ?case
  proof (cases "goes_first cmp x y")
    case True
    have "goes_first cmp x z" if "z \<in> set ys" for z
    proof -
      from Cons.prems that have "goes_first cmp y z" "y \<in> A" "z \<in> A"
        by auto
      with True assms(3) trans show ?thesis
        by blast
    qed
    with True Cons.prems show ?thesis
      by (simp add: insertSorted_Cons del: insertSorted.simps)
  next
    case False
    with total [OF assms(3), of y] Cons.prems have "goes_first cmp y x"
      by auto
    moreover from Cons have "sorted_wrt (goes_first cmp) (insertSorted cmp x ys)"
      by simp
    moreover have "set (insertSorted cmp x ys) = insert x (set ys)"
      by (rule set_insertSorted)
    ultimately show ?thesis
      using False Cons.prems by (auto simp: insertSorted_Cons simp del: insertSorted.simps)
  qed
qed

lemma sorted_sortBy:
  assumes total: "\<And>a b. a \<in> A \<Longrightarrow> b \<in> A \<Longrightarrow> goes_first cmp a b \<or> goes_first cmp b a"
    and trans: "\<And>a b c. a \<in> A \<Longrightarrow> b \<in> A \<Longrightarrow> c \<in> A \<Longrightarrow>
      goes_first cmp a b \<Longrightarrow> goes_first cmp b c \<Longrightarrow> goes_first cmp a c"
    and "set xs \<subseteq> A"
  shows "sorted_wrt (goes_first cmp) (sortBy cmp xs)"
  using assms(3)
proof (induction xs)
  case Nil
  then show ?case by (simp add: sortBy_def)
next
  case (Cons x xs)
  then have "sorted_wrt (goes_first cmp) (sortBy cmp xs)" and "x \<in> A"
    and "set (sortBy cmp xs) \<subseteq> A"
    by (simp_all add: set_sortBy)
  from sorted_insertSorted [of A cmp, OF total trans this(2,3,1)] show ?case
    by (simp add: sortBy_def)
qed

lemma sorted_wrt_strengthen:
  assumes "sorted_wrt P xs" and "distinct (map f xs)"
    and "\<And>a b. a \<in> set xs \<Longrightarrow> b \<in> set xs \<Longrightarrow> P a b \<Longrightarrow> f a \<noteq> f b \<Longrightarrow> Q a b"
  shows "sorted_wrt Q xs"
  using assms
proof (induction xs)
  case Nil
  then show ?case by simp
next
  case (Cons x xs)
  then show ?case
    by (auto simp: image_iff) 
qed

lemma computeMonthlyStats_eq:
  "computeMonthlyStats D xs = sortBy compareStats (map (\<lambda>d. bucketOf D d xs) (groups D xs))"
  by (simp add: computeMonthlyStats_def map_values_def foldl_addShoot comp_def)

lemma bucketOf_fields:
  "year (bucketOf D d xs) = map_option fst d"
  "monthNumber (bucketOf D d xs) = map_option snd d"
  "shootCount (bucketOf D d xs) = length (shootsOfMonth D d xs)"
  "totalEarnings (bucketOf D d xs) = sumPrices (shootsOfMonth D d xs)"
  by (simp_all add: bucketOf_def)

lemma option_pair_eq:
  "map_option fst d = map_option fst d' \<and> map_option snd d = map_option snd d' \<longleftrightarrow> d = d'"
  by (cases d; cases d') (auto simp: prod_eq_iff)

lemma length_filter_eq_distinct:
  "distinct ds \<Longrightarrow> d0 \<in> set ds \<Longrightarrow> length (filter (\<lambda>d. d = d0) ds) = 1"
proof -
  assume d: "distinct ds" and m: "d0 \<in> set ds"
  from m have "{d. d = d0} \<inter> set ds = {d0}"
    by auto
  with distinct_length_filter [OF d, of "\<lambda>d. d = d0"] show ?thesis
    by simp
qed

lemma one_bucket_per_group:
  assumes "s \<in> set xs"
  shows "length (filter (\<lambda>b. year b = map_option fst (D (Shoot.date s))
                             \<and> monthNumber b = map_option snd (D (Shoot.date s)))
           (computeMonthlyStats D xs)) = 1"
proof -
  from assms have "D (Shoot.date s) \<in> set (groups D xs)"
    by (auto simp: set_groups)
  from length_filter_eq_distinct [OF distinct_groups this] show ?thesis
    by (simp add: computeMonthlyStats_eq length_filter_sortBy comp_def bucketOf_fields
        option_pair_eq)
qed

lemma bucket_is_bucketOf:
  assumes "b \<in> set (computeMonthlyStats D xs)"
  shows "\<exists>s\<in>set xs. b = bucketOf D (D (Shoot.date s)) xs"
  using assms by (auto simp: computeMonthlyStats_eq set_sortBy set_groups)

lemma distinct_map_insertSorted:
  "distinct (map f (insertSorted cmp x ys)) = distinct (map f (x # ys))"
  by (induction ys) (auto simp: set_insertSorted)

lemma distinct_map_sortBy: "distinct (map f (sortBy cmp xs)) = distinct (map f xs)"
  unfolding sortBy_def
  by (induction xs) (simp_all add: distinct_map_insertSorted set_sortBy [unfolded sortBy_def])

lemma goes_first_valid:
  assumes "year a = Some ya" and "monthNumber a = Some ma"
    and "year b = Some yb" and "monthNumber b = Some mb"
  shows "goes_first compareStats a b \<longleftrightarrow> yb < ya \<or> (yb = ya \<and> mb \<le> ma)"
  using assms by (auto simp: goes_first_def compareStats_def js_minus_def)

lemma later_month_valid:
  assumes "year a = Some ya" and "monthNumber a = Some ma"
    and "year b = Some yb" and "monthNumber b = Some mb"
  shows "later_month a b \<longleftrightarrow> yb < ya \<or> (yb = ya \<and> mb < ma)"
  using assms by (simp add: later_month_def)

lemma sorted_computeMonthlyStats:
  assumes valid: "\<forall>s\<in>set xs. D (Shoot.date s) \<noteq> None"
  shows "sorted_wrt later_month (computeMonthlyStats D xs)"
proof -
  let ?B = "map (\<lambda>d. bucketOf D d xs) (groups D xs)"
  let ?f = "\<lambda>b. (year b, monthNumber b)"
  have v: "\<exists>y m. year a = Some y \<and> monthNumber a = Some m" if "a \<in> set ?B" for a
  proof -
    from that obtain s where "s \<in> set xs" "a = bucketOf D (D (Shoot.date s)) xs"
      by (auto simp: set_groups)
    with valid show ?thesis
      by (cases "D (Shoot.date s)") (auto simp: bucketOf_fields)
  qed
  have total: "goes_first compareStats a b \<or> goes_first compareStats b a"
    if "a \<in> set ?B" "b \<in> set ?B" for a b
  proof -
    from v [OF that(1)] v [OF that(2)] obtain ya ma yb mb
      where "year a = Some ya" "monthNumber a = Some ma" "year b = Some yb" "monthNumber b = Some mb"
      by blast
    then show ?thesis
      by (simp add: goes_first_valid [of a ya ma b yb mb] goes_first_valid [of b yb mb a ya ma])
        linarith
  qed
  have trans: "goes_first compareStats a c"
    if "a \<in> set ?B" "b \<in> set ?B" "c \<in> set ?B" "goes_first compareStats a b"
      "goes_first compareStats b c" for a b c
  proof -
    from v [OF that(1)] v [OF that(2)] v [OF that(3)] obtain ya ma yb mb yc mc
      where f: "year a = Some ya" "monthNumber a = Some ma" "year b = Some yb"
        "monthNumber b = Some mb" "year c = Some yc" "monthNumber c = Some mc"
      by blast
    from that(4,5) show ?thesis
      unfolding goes_first_valid [OF f(1,2,3,4)] goes_first_valid [OF f(3,4,5,6)]
        goes_first_valid [OF f(1,2,5,6)]
      by linarith
  qed
  have s: "sorted_wrt (goes_first compareStats) (computeMonthlyStats D xs)"
    unfolding computeMonthlyStats_eq
    by (rule sorted_sortBy [of "set ?B"]) (use total trans in blast)+
  have "inj_on (\<lambda>d. ?f (bucketOf D d xs)) (set (groups D xs))"
    by (auto simp: inj_on_def bucketOf_fields option_pair_eq [symmetric])
  then have "distinct (map ?f ?B)"
    by (simp add: distinct_map comp_def distinct_groups)
  then have d: "distinct (map ?f (computeMonthlyStats D xs))"
    by (simp only: computeMonthlyStats_eq distinct_map_sortBy)
  show ?thesis
  proof (rule sorted_wrt_strengthen [OF s d])
    fix a b
    assume "a \<in> set (computeMonthlyStats D xs)" "b \<in> set (computeMonthlyStats D xs)"
      and g: "goes_first compareStats a b" and n: "?f a \<noteq> ?f b"
    then have "a \<in> set ?B" "b \<in> set ?B"
      by (simp_all add: computeMonthlyStats_eq set_sortBy)
    from v [OF this(1)] v [OF this(2)] obtain ya ma yb mb
      where f: "year a = Some ya" "monthNumber a = Some ma" "year b = Some yb"
        "monthNumber b = Some mb"
      by blast
    from g n show "later_month a b"
      unfolding goes_first_valid [OF f] later_month_valid [OF f] using f by auto
  qed
qed

lemma january_example:
  fixes s1 s2 :: "('s, rat) Shoot"
  assumes "Dx (Shoot.date s1) = Some (2024, 0)" and "Shoot.price s1 = 100"
    and "Dx (Shoot.date s2) = Some (2024, 0)" and "Shoot.price s2 = 50"
  shows "computeMonthlyStats Dx [s1, s2] =
           [\<lparr>month = Some ''January'', year = Some 2024, monthNumber = Some 0,
             shootCount = 2, totalEarnings = 150\<rparr>]"
  using assms
  by (simp add: computeMonthlyStats_eq groups_def bucketOf_def shootsOfMonth_def
      sumPrices_def MONTHS_def sortBy_def)

lemma sample_dates_simps:
  "sample_dates (Shoot.date jan10) = Some (2024, 0)"
  "sample_dates (Shoot.date jan20) = Some (2024, 0)"
  "sample_dates (Shoot.date may23) = Some (2023, 4)"
  "sample_dates (Shoot.date may24) = Some (2024, 4)"
  "sample_dates (Shoot.date nodate) = None"
  by (simp_all add: sample_dates_def jan10_def jan20_def may23_def may24_def nodate_def)

lemma sample_prices:
  "Shoot.price jan10 = 100" "Shoot.price jan20 = 50" "Shoot.price may23 = 200"
  "Shoot.price may24 = 300" "Shoot.price nodate = 70"
  by (simp_all add: jan10_def jan20_def may23_def may24_def nodate_def)

lemma stats_with_invalid_date:
  "computeMonthlyStats sample_dates [may23, nodate, may24] =
     [\<lparr>month = Some ''May'', year = Some 2023, monthNumber = Some 4,
       shootCount = 1, totalEarnings = 200\<rparr>,
      \<lparr>month = None, year = None, monthNumber = None, shootCount = 1, totalEarnings = 70\<rparr>,
      \<lparr>month = Some ''May'', year = Some 2024, monthNumber = Some 4,
       shootCount = 1, totalEarnings = 300\<rparr>]"
  by (simp add: computeMonthlyStats_eq groups_def bucketOf_def shootsOfMonth_def
      sumPrices_def MONTHS_def sortBy_def sample_dates_simps sample_prices
      compareStats_def js_minus_def)

lemma stats_of_three_months:
  "computeMonthlyStats sample_dates [may23, jan10, may24, jan20] =
     [\<lparr>month = Some ''May'', year = Some 2024, monthNumber = Some 4,
       shootCount = 1, totalEarnings = 300\<rparr>,
      \<lparr>month = Some ''January'', year = Some 2024, monthNumber = Some 0,
       shootCount = 2, totalEarnings = 150\<rparr>,
      \<lparr>month = Some ''May'', year = Some 2023, monthNumber = Some 4,
       shootCount = 1, totalEarnings = 200\<rparr>]"
  by (simp add: computeMonthlyStats_eq groups_def bucketOf_def shootsOfMonth_def
      sumPrices_def MONTHS_def sortBy_def sample_dates_simps sample_prices
      compareStats_def js_minus_def)

section \<open>Monthly statistics\<close>

text \<open>
  Claim C9, as stated, has the buckets sorted descending by (year, month) for every list
  of shoots. The store keeps any truthy \<open>date\<close>, and a date that is no date gives a bucket
  whose year and month are NaN; the comparator then returns NaN, which the sort reads as
  \<open>0\<close>. On the shoots dated 2023-05-10, \<open>garbage\<close> and 2024-05-10, in this order, the two
  comparisons of neighbours both return NaN and nothing moves: the bucket of May 2023
  comes out before the bucket of May 2024, which is of a later month.
\<close>

theorem invalid_date_breaks_descending_order_counterexample:
  "computeMonthlyStats sample_dates [may23, nodate, may24] =
     [\<lparr>month = Some ''May'', year = Some 2023, monthNumber = Some 4,
       shootCount = 1, totalEarnings = 200\<rparr>,
      \<lparr>month = None, year = None, monthNumber = None, shootCount = 1, totalEarnings = 70\<rparr>,
      \<lparr>month = Some ''May'', year = Some 2024, monthNumber = Some 4,
       shootCount = 1, totalEarnings = 300\<rparr>]
   \<and> compareStats (bucketOf sample_dates None [may23, nodate, may24])
        (bucketOf sample_dates (Some (2023, 4)) [may23, nodate, may24]) = None
   \<and> compareStats (bucketOf sample_dates (Some (2024, 4)) [may23, nodate, may24])
        (bucketOf sample_dates None [may23, nodate, may24]) = None
   \<and> later_month
        (\<lparr>month = Some ''May'', year = Some 2024, monthNumber = Some 4,
          shootCount = 1, totalEarnings = 300\<rparr> :: rat MonthlyStats)
        \<lparr>month = Some ''May'', year = Some 2023, monthNumber = Some 4,
         shootCount = 1, totalEarnings = 200\<rparr>
   \<and> \<not> sorted_wrt later_month (computeMonthlyStats sample_dates [may23, nodate, may24])
   \<and> \<not> sorted_wrt later_month
        (filter (\<lambda>b. year b \<noteq> None) (computeMonthlyStats sample_dates [may23, nodate, may24]))"
  unfolding stats_with_invalid_date
  by (simp add: later_month_def compareStats_def js_minus_def bucketOf_fields)

text \<open>
  Claim C9, amended. For every list of shoots, \<open>computeMonthlyStats\<close> groups the shoots by
  the year and month of their date, the shoots whose date is no date forming one group of
  their own: each shoot's month has exactly one bucket in the result, and every bucket of
  the result is the bucket of the month of some shoot of the list, with \<open>shootCount\<close> the
  number of the shoots of that month and \<open>totalEarnings\<close> the sum of their prices. When
  every date of the list is a valid date, the buckets are in strictly descending order of
  (year, month). In particular two shoots dated 2024-01-10 and 2024-01-20, at prices 100
  and 50, give exactly one bucket: January 2024, \<open>shootCount\<close> 2, \<open>totalEarnings\<close> 150.
\<close>

theorem computeMonthlyStats_groups_counts_sums_and_sorts:
  fixes D :: "'s \<Rightarrow> (int \<times> nat) option" and xs :: "('s, 'n::{plus,zero}) Shoot list"
    and Dx :: "string \<Rightarrow> (int \<times> nat) option" and s1 s2 :: "(string, rat) Shoot"
  shows "(\<forall>s\<in>set xs.
            length (filter (\<lambda>b. year b = map_option fst (D (Shoot.date s))
                                \<and> monthNumber b = map_option snd (D (Shoot.date s)))
              (computeMonthlyStats D xs)) = 1)
       \<and> (\<forall>b\<in>set (computeMonthlyStats D xs). \<exists>s\<in>set xs.
            year b = map_option fst (D (Shoot.date s))
            \<and> monthNumber b = map_option snd (D (Shoot.date s))
            \<and> shootCount b = length (shootsOfMonth D (D (Shoot.date s)) xs)
            \<and> totalEarnings b = sumPrices (shootsOfMonth D (D (Shoot.date s)) xs))
       \<and> ((\<forall>s\<in>set xs. D (Shoot.date s) \<noteq> None) \<longrightarrow>
            sorted_wrt later_month (computeMonthlyStats D xs))
       \<and> (Shoot.date s1 = ''2024-01-10'' \<and> Shoot.price s1 = 100
            \<and> Shoot.date s2 = ''2024-01-20'' \<and> Shoot.price s2 = 50
            \<and> Dx ''2024-01-10'' = Some (2024, 0) \<and> Dx ''2024-01-20'' = Some (2024, 0) \<longrightarrow>
          computeMonthlyStats Dx [s1, s2] =
            [\<lparr>month = Some ''January'', year = Some 2024, monthNumber = Some 0,
              shootCount = 2, totalEarnings = 150\<rparr>])"
proof (intro conjI ballI impI)
  fix s assume "s \<in> set xs"
  then show "length (filter (\<lambda>b. year b = map_option fst (D (Shoot.date s))
                                \<and> monthNumber b = map_option snd (D (Shoot.date s)))
              (computeMonthlyStats D xs)) = 1"
    by (rule one_bucket_per_group)
next
  fix b assume "b \<in> set (computeMonthlyStats D xs)"
  from bucket_is_bucketOf [OF this]
  show "\<exists>s\<in>set xs.
            year b = map_option fst (D (Shoot.date s))
            \<and> monthNumber b = map_option snd (D (Shoot.date s))
            \<and> shootCount b = length (shootsOfMonth D (D (Shoot.date s)) xs)
            \<and> totalEarnings b = sumPrices (shootsOfMonth D (D (Shoot.date s)) xs)"
    by (auto simp: bucketOf_fields)
next
  assume "\<forall>s\<in>set xs. D (Shoot.date s) \<noteq> None"
  then show "sorted_wrt later_month (computeMonthlyStats D xs)"
    by (rule sorted_computeMonthlyStats)
next
  assume "Shoot.date s1 = ''2024-01-10'' \<and> Shoot.price s1 = 100
            \<and> Shoot.date s2 = ''2024-01-20'' \<and> Shoot.price s2 = 50
            \<and> Dx ''2024-01-10'' = Some (2024, 0) \<and> Dx ''2024-01-20'' = Some (2024, 0)"
  then show "computeMonthlyStats Dx [s1, s2] =
            [\<lparr>month = Some ''January'', year = Some 2024, monthNumber = Some 0,
              shootCount = 2, totalEarnings = 150\<rparr>]"
    by (intro january_example) simp_all
qed

theorem computeMonthlyStats_groups_counts_sums_and_sorts_witness:
  "may23 \<in> set [may23, jan10, may24, jan20] \<and> jan10 \<in> set [may23, jan10, may24, jan20]
   \<and> sample_dates (Shoot.date may23) \<noteq> None \<and> sample_dates (Shoot.date jan10) \<noteq> None
   \<and> sample_dates (Shoot.date may24) \<noteq> None \<and> sample_dates (Shoot.date jan20) \<noteq> None
   \<and> computeMonthlyStats sample_dates [may23, jan10, may24, jan20] =
       [\<lparr>month = Some ''May'', year = Some 2024, monthNumber = Some 4,
         shootCount = 1, totalEarnings = 300\<rparr>,
        \<lparr>month = Some ''January'', year = Some 2024, monthNumber = Some 0,
         shootCount = 2, totalEarnings = 150\<rparr>,
        \<lparr>month = Some ''May'', year = Some 2023, monthNumber = Some 4,
         shootCount = 1, totalEarnings = 200\<rparr>]
   \<and> length (filter (\<lambda>b. year b = Some 2023 \<and> monthNumber b = Some 4)
        (computeMonthlyStats sample_dates [may23, jan10, may24, jan20])) = 1
   \<and> length (filter (\<lambda>b. year b = Some 2024 \<and> monthNumber b = Some 0)
        (computeMonthlyStats sample_dates [may23, jan10, may24, jan20])) = 1
   \<and> shootsOfMonth sample_dates (Some (2024, 0)) [may23, jan10, may24, jan20] = [jan10, jan20]
   \<and> (\<exists>b\<in>set (computeMonthlyStats sample_dates [may23, jan10, may24, jan20]).
        year b = Some 2024 \<and> monthNumber b = Some 0
        \<and> shootCount b = length [jan10, jan20] \<and> totalEarnings b = sumPrices [jan10, jan20])
   \<and> sorted_wrt later_month (computeMonthlyStats sample_dates [may23, jan10, may24, jan20])
   \<and> length (computeMonthlyStats sample_dates [may23, jan10, may24, jan20]) = 3
   \<and> Shoot.date jan10 = ''2024-01-10'' \<and> Shoot.price jan10 = 100
   \<and> Shoot.date jan20 = ''2024-01-20'' \<and> Shoot.price jan20 = 50
   \<and> sample_dates ''2024-01-10'' = Some (2024, 0)
   \<and> sample_dates ''2024-01-20'' = Some (2024, 0)
   \<and> computeMonthlyStats sample_dates [jan10, jan20] =
        [\<lparr>month = Some ''January'', year = Some 2024, monthNumber = Some 0,
          shootCount = 2, totalEarnings = 150\<rparr>]"
proof -
  let ?xs = "[may23, jan10, may24, jan20]"
  let ?jan = "\<lparr>month = Some ''January'', year = Some 2024, monthNumber = Some 0,
         shootCount = 2, totalEarnings = 150::rat\<rparr>"
  have h: "Shoot.date jan10 = ''2024-01-10''" "Shoot.price jan10 = 100"
    "Shoot.date jan20 = ''2024-01-20''" "Shoot.price jan20 = 50"
    "sample_dates ''2024-01-10'' = Some (2024, 0)"
    "sample_dates ''2024-01-20'' = Some (2024, 0)"
    by (simp_all add: jan10_def jan20_def sample_dates_def)
  have m: "may23 \<in> set ?xs" "jan10 \<in> set ?xs"
    by simp_all
  have v: "\<forall>s\<in>set ?xs. sample_dates (Shoot.date s) \<noteq> None"
    by (simp add: sample_dates_simps)
  have g: "shootsOfMonth sample_dates (Some (2024, 0)) ?xs = [jan10, jan20]"
    by (simp add: shootsOfMonth_def sample_dates_simps)
  note t = computeMonthlyStats_groups_counts_sums_and_sorts
    [where xs = ?xs and D = sample_dates and Dx = sample_dates
      and ?s1.0 = jan10 and ?s2.0 = jan20]
  note one = t [THEN conjunct1]
  note each = t [THEN conjunct2, THEN conjunct1]
  note ord = t [THEN conjunct2, THEN conjunct2, THEN conjunct1, THEN mp, OF v]
  note jan = t [THEN conjunct2, THEN conjunct2, THEN conjunct2, THEN mp]
  from h have e: "computeMonthlyStats sample_dates [jan10, jan20] = [?jan]"
    by (intro jan) simp
  from one [THEN bspec, OF m(1)]
  have c1: "length (filter (\<lambda>b. year b = Some 2023 \<and> monthNumber b = Some 4)
        (computeMonthlyStats sample_dates ?xs)) = 1"
    by (simp add: sample_dates_simps)
  from one [THEN bspec, OF m(2)]
  have c2: "length (filter (\<lambda>b. year b = Some 2024 \<and> monthNumber b = Some 0)
        (computeMonthlyStats sample_dates ?xs)) = 1"
    by (simp add: sample_dates_simps)
  have mem: "?jan \<in> set (computeMonthlyStats sample_dates ?xs)"
    by (simp add: stats_of_three_months)
  from each [THEN bspec, OF mem] obtain s where s: "s \<in> set ?xs"
    "year ?jan = map_option fst (sample_dates (Shoot.date s))"
    "monthNumber ?jan = map_option snd (sample_dates (Shoot.date s))"
    "shootCount ?jan = length (shootsOfMonth sample_dates (sample_dates (Shoot.date s)) ?xs)"
    "totalEarnings ?jan = sumPrices (shootsOfMonth sample_dates (sample_dates (Shoot.date s)) ?xs)"
    by (elim bexE conjE)
  from s(2,3) have "sample_dates (Shoot.date s) = Some (2024, 0)"
    by (cases "sample_dates (Shoot.date s)") auto
  with s(4,5) g have b: "shootCount ?jan = length [jan10, jan20]"
    "totalEarnings ?jan = sumPrices [jan10, jan20]"
    by simp_all
  from mem b have x: "\<exists>b\<in>set (computeMonthlyStats sample_dates ?xs).
        year b = Some 2024 \<and> monthNumber b = Some 0
        \<and> shootCount b = length [jan10, jan20] \<and> totalEarnings b = sumPrices [jan10, jan20]"
    by (intro bexI [of _ ?jan]) simp_all
  have l: "length (computeMonthlyStats sample_dates ?xs) = 3"
    by (simp add: stats_of_three_months)
  from m v [THEN bspec, OF m(1)] stats_of_three_months c1 c2 g x ord l h e show ?thesis
    by (simp add: sample_dates_simps)
qed

end
